theory Spec2Isabelle
  imports Main
begin

section \<open>Python values\<close>

text \<open>
  \<^verbatim>\<open>validate.py\<close> works on what the loader hands it: the parsed document (nested
  dicts, lists and scalars) and the objects of the model under construction (resources, traits,
  resource types, security schemes, the root), which it reads by attribute. Python checks none
  of this statically, so the embedding keeps one type of values and makes every failing
  operation an error value.

  A dict is an association list in insertion order (the order Python 3.7 and an ordered
  loader give; older interpreters give an arbitrary one); \<open>get\<close> returns the first binding
  of a key. Keys and members are compared structurally (Python's \<open>1 == True\<close> is not
  modelled, and a key that Python cannot hash is looked up like any other), floats are left
  out, and a character is a code point below 256. An object is the list of its attributes; it has no methods, so
  \<open>get\<close>, iteration, \<open>len\<close> and \<open>in\<close> fail on it.
\<close>

datatype pyval =
    PNone
  | PBool bool
  | PInt int
  | PStr string
  | PList "pyval list"
  | PDict "(pyval \<times> pyval) list"
  | PObj "(string \<times> pyval) list"

text \<open>
  The one controlled error of the module carries its message template and the arguments of
  \<open>format\<close>; the others are the uncontrolled exceptions the interpreter raises.
\<close>

datatype error =
    InvalidRamlFileError string "pyval list"
  | AttributeError
  | TypeError
  | IndexError
  | KeyError
  | OSError

type_synonym 'a result = "error + 'a"

definition bnd :: "'a result \<Rightarrow> ('a \<Rightarrow> 'b result) \<Rightarrow> 'b result" where
  "bnd r f = (case r of Inl e \<Rightarrow> Inl e | Inr v \<Rightarrow> f v)"

definition quoted :: "string \<Rightarrow> string" where
  "quoted s = CHR 0x27 # s @ [CHR 0x27]"

fun truthy :: "pyval \<Rightarrow> bool" where
  "truthy PNone = False"
| "truthy (PBool b) = b"
| "truthy (PInt i) = (i \<noteq> 0)"
| "truthy (PStr s) = (s \<noteq> [])"
| "truthy (PList xs) = (xs \<noteq> [])"
| "truthy (PDict kvs) = (kvs \<noteq> [])"
| "truthy (PObj attrs) = True"

fun hasattr :: "pyval \<Rightarrow> string \<Rightarrow> bool" where
  "hasattr (PObj attrs) a = (map_of attrs a \<noteq> None)"
| "hasattr _ a = False"

fun getattr :: "pyval \<Rightarrow> string \<Rightarrow> pyval result" where
  "getattr (PObj attrs) a = (case map_of attrs a of None \<Rightarrow> Inl AttributeError | Some v \<Rightarrow> Inr v)"
| "getattr _ a = Inl AttributeError"

text \<open>\<open>d.get(k, default)\<close>; anything but a dict has no \<open>get\<close>.\<close>

fun dict_get :: "pyval \<Rightarrow> pyval \<Rightarrow> pyval \<Rightarrow> pyval result" where
  "dict_get (PDict kvs) k dflt = Inr (case map_of kvs k of None \<Rightarrow> dflt | Some v \<Rightarrow> v)"
| "dict_get _ k dflt = Inl AttributeError"

text \<open>\<open>six.iterkeys\<close>, \<open>itervalues\<close>, \<open>iteritems\<close> (and \<open>d.items()\<close>), listed.\<close>

fun iterkeys :: "pyval \<Rightarrow> pyval list result" where
  "iterkeys (PDict kvs) = Inr (map fst kvs)"
| "iterkeys _ = Inl AttributeError"

fun itervalues :: "pyval \<Rightarrow> pyval list result" where
  "itervalues (PDict kvs) = Inr (map snd kvs)"
| "itervalues _ = Inl AttributeError"

fun iteritems :: "pyval \<Rightarrow> (pyval \<times> pyval) list result" where
  "iteritems (PDict kvs) = Inr kvs"
| "iteritems _ = Inl AttributeError"

text \<open>\<open>for x in v\<close>: a list gives its elements, a dict its keys, a string its characters.\<close>

fun py_iter :: "pyval \<Rightarrow> pyval list result" where
  "py_iter (PList xs) = Inr xs"
| "py_iter (PDict kvs) = Inr (map fst kvs)"
| "py_iter (PStr s) = Inr (map (\<lambda>c. PStr [c]) s)"
| "py_iter _ = Inl TypeError"

fun py_len :: "pyval \<Rightarrow> nat result" where
  "py_len (PList xs) = Inr (length xs)"
| "py_len (PDict kvs) = Inr (length kvs)"
| "py_len (PStr s) = Inr (length s)"
| "py_len _ = Inl TypeError"

fun is_dict :: "pyval \<Rightarrow> bool" where
  "is_dict (PDict kvs) = True"
| "is_dict _ = False"

fun is_list :: "pyval \<Rightarrow> bool" where
  "is_list (PList xs) = True"
| "is_list _ = False"

text \<open>\<open>xs[0]\<close>.\<close>

fun first :: "'a list \<Rightarrow> 'a result" where
  "first [] = Inl IndexError"
| "first (x # xs) = Inr x"

fun starts_with :: "string \<Rightarrow> string \<Rightarrow> bool" where
  "starts_with [] s = True"
| "starts_with (p # ps) [] = False"
| "starts_with (p # ps) (c # cs) = (p = c \<and> starts_with ps cs)"

text \<open>\<open>needle in hay\<close> on two strings.\<close>

fun contains_str :: "string \<Rightarrow> string \<Rightarrow> bool" where
  "contains_str needle [] = (needle = [])"
| "contains_str needle (c # cs) = (starts_with needle (c # cs) \<or> contains_str needle cs)"

text \<open>
  \<open>x in c\<close>: membership in a list, key membership in a dict, substring in a string (a
  \<open>TypeError\<close> when \<open>x\<close> is no string); \<open>None\<close>, numbers and plain objects are not
  iterable.
\<close>

fun py_in :: "pyval \<Rightarrow> pyval \<Rightarrow> bool result" where
  "py_in x (PList xs) = Inr (x \<in> set xs)"
| "py_in x (PDict kvs) = Inr (x \<in> set (map fst kvs))"
| "py_in (PStr n) (PStr s) = Inr (contains_str n s)"
| "py_in _ _ = Inl TypeError"

text \<open>\<open>for x in xs: body(x)\<close>, left at the first raise.\<close>

fun for_each :: "'a list \<Rightarrow> ('a \<Rightarrow> unit result) \<Rightarrow> unit result" where
  "for_each [] body = Inr ()"
| "for_each (x # xs) body = bnd (body x) (\<lambda>_. for_each xs body)"

text \<open>\<open>[f(x) for x in xs]\<close>.\<close>

fun map_r :: "('a \<Rightarrow> 'b result) \<Rightarrow> 'a list \<Rightarrow> 'b list result" where
  "map_r f [] = Inr []"
| "map_r f (x # xs) = bnd (f x) (\<lambda>y. bnd (map_r f xs) (\<lambda>ys. Inr (y # ys)))"


section \<open>Strings, the pattern and the source file\<close>

text \<open>
  The characters at which \<open>s.split()\<close> cuts a Python 3 string, among the code points below
  256: tab to carriage return (9 to 13), the four separators 28 to 31, the space, and the code
  points 133 and 160.
\<close>

definition is_space :: "char \<Rightarrow> bool" where
  "is_space c = (let n = (of_char c :: nat) in
     (9 \<le> n \<and> n \<le> 13) \<or> (28 \<le> n \<and> n \<le> 31) \<or> n = 32 \<or> n = 133 \<or> n = 160)"

text \<open>\<open>s.split()\<close>: the maximal runs of characters that are not whitespace.\<close>

fun tokens :: "string \<Rightarrow> string \<Rightarrow> string list" where
  "tokens cur [] = (if cur = [] then [] else [cur])"
| "tokens cur (c # cs) =
     (if is_space c then (if cur = [] then tokens [] cs else cur # tokens [] cs)
      else tokens (cur @ [c]) cs)"

definition py_split :: "string \<Rightarrow> string list" where
  "py_split s = tokens [] s"

text \<open>\<open>r.readline()\<close>: the text up to and with the first newline, and what is left to read.\<close>

fun readline :: "string \<Rightarrow> string \<times> string" where
  "readline [] = ([], [])"
| "readline (c # cs) =
     (if c = CHR 0x0A then ([c], cs) else (case readline cs of (l, r) \<Rightarrow> (c # l, r)))"

text \<open>\<open>r.readlines()\<close>: what is left, cut after each newline.\<close>

fun lines_from :: "string \<Rightarrow> string \<Rightarrow> string list" where
  "lines_from cur [] = (if cur = [] then [] else [cur])"
| "lines_from cur (c # cs) =
     (if c = CHR 0x0A then (cur @ [c]) # lines_from [] cs else lines_from (cur @ [c]) cs)"

definition readlines :: "string \<Rightarrow> string list" where
  "readlines s = lines_from [] s"

text \<open>\<open>line.split('\n')[0]\<close>.\<close>

definition before_newline :: "string \<Rightarrow> string" where
  "before_newline s = takeWhile (\<lambda>c. c \<noteq> CHR 0x0A) s"

text \<open>The lower case of a code point below 256: the letters A to Z, and 192 to 222 but 215.\<close>

definition lower_char :: "char \<Rightarrow> char" where
  "lower_char c = (let n = (of_char c :: nat) in
     if (65 \<le> n \<and> n \<le> 90) \<or> (192 \<le> n \<and> n \<le> 222 \<and> n \<noteq> 215)
     then char_of (n + 32) else c)"

text \<open>\<open>k.lower()\<close> and \<open>s.startswith(p)\<close> exist on strings only.\<close>

fun py_lower :: "pyval \<Rightarrow> string result" where
  "py_lower (PStr s) = Inr (map lower_char s)"
| "py_lower _ = Inl AttributeError"

fun py_startswith :: "pyval \<Rightarrow> string \<Rightarrow> bool result" where
  "py_startswith (PStr s) p = Inr (starts_with p s)"
| "py_startswith _ p = Inl AttributeError"

text \<open>
  The pattern \<^verbatim>\<open>application\/[A-Za-z.-0-1]*?(json|xml)\<close>. In the bracket \<^verbatim>\<open>A-Z\<close>
  and \<^verbatim>\<open>a-z\<close> are ranges, \<^verbatim>\<open>.-0\<close> is the range from the full stop to the digit
  zero (the codes 46 to 48: full stop, slash, zero), and the hyphen and the digit one that
  follow stand for themselves.
\<close>

definition in_class :: "char \<Rightarrow> bool" where
  "in_class c = (let n = (of_char c :: nat) in
     (65 \<le> n \<and> n \<le> 90) \<or> (97 \<le> n \<and> n \<le> 122) \<or> (46 \<le> n \<and> n \<le> 48) \<or>
     c = CHR ''-'' \<or> c = CHR ''1'')"

text \<open>
  After \<^verbatim>\<open>application/\<close>: characters of the class, as few as will do, then
  \<^verbatim>\<open>json\<close> or \<^verbatim>\<open>xml\<close>.
\<close>

fun class_then_suffix :: "string \<Rightarrow> bool" where
  "class_then_suffix [] = False"
| "class_then_suffix (c # cs) =
     (starts_with ''json'' (c # cs) \<or> starts_with ''xml'' (c # cs) \<or>
      (in_class c \<and> class_then_suffix cs))"

definition match_here :: "string \<Rightarrow> bool" where
  "match_here s = (starts_with ''application/'' s \<and> class_then_suffix (drop 12 s))"

text \<open>\<open>re.search\<close> tries every start position, the first one first.\<close>

fun search_from :: "string \<Rightarrow> bool" where
  "search_from [] = match_here []"
| "search_from (c # cs) = (match_here (c # cs) \<or> search_from cs)"

fun re_search :: "pyval \<Rightarrow> bool result" where
  "re_search (PStr s) = Inr (search_from s)"
| "re_search _ = Inl TypeError"

section \<open>Configuration and environment\<close>

text \<open>
  \<^verbatim>\<open>base_config\<close> is not part of the module; its values are parameters.
  A field \<open>section_key\<close> is \<^verbatim>\<open>config.get(section, key)\<close>: a string for
  \<^verbatim>\<open>('main', 'validate')\<close>, a list of values for the others.
\<close>

record config =
  main_validate :: string
  defaults_raml_versions :: "pyval list"
  defaults_protocols :: "pyval list"
  defaults_media_types :: "pyval list"
  defaults_prim_types :: "pyval list"
  custom_auth_schemes :: "pyval list"
  custom_resp_codes :: "pyval list"

text \<open>
  What a call reads beside its arguments: \<^verbatim>\<open>os.environ.get('RAML_VALIDATE')\<close>, the
  configuration, and the files by path (a text file read with newline \<^verbatim>\<open>\n\<close>).
\<close>

record environment =
  RAML_VALIDATE :: "string option"
  cfg :: config
  files :: "string \<Rightarrow> string option"


section \<open>Calls\<close>

text \<open>
  Python hands a function references to its argument objects, and the function may change
  them in place. A call is therefore modelled on the positional arguments as a list of
  objects: it gives the outcome (the value returned, or the exception raised) together with
  the same objects as they are when the call is over. Keyword arguments are not modelled.
\<close>

type_synonym 'a call = "pyval list \<Rightarrow> 'a result \<times> pyval list"

section \<open>API metadata validation\<close>

fun base_uri :: "environment \<Rightarrow> unit call" where
  "base_uri E [raml] =
     (bnd (dict_get raml (PStr ''baseUri'') PNone) (\<lambda>b.
        if \<not> truthy b
        then Inl (InvalidRamlFileError ''RAML File does not define the baseUri.'' [])
        else Inr ()),
      [raml])"
| "base_uri E args = (Inl TypeError, args)"

fun version :: "environment \<Rightarrow> unit call" where
  "version E (raml # prod_flag # args) =
     (bnd (dict_get raml (PStr ''version'') PNone) (\<lambda>v.
        if truthy prod_flag \<and> \<not> truthy v
        then Inl (InvalidRamlFileError ''RAML File does not define an API version.'' [])
        else
          bnd (dict_get raml (PStr ''baseUri'') PNone) (\<lambda>b.
          bnd (py_in (PStr ''{version}'') b) (\<lambda>c.
            if c \<and> \<not> truthy v
            then Inl (InvalidRamlFileError
              ''RAML File's baseUri includes {version} parameter but no version is defined.'' [])
            else Inr ()))),
      raml # prod_flag # args)"
| "version E [raml] = (Inl IndexError, [raml])"
| "version E [] = (Inl TypeError, [])"

fun raml_header :: "environment \<Rightarrow> unit call" where
  "raml_header E [PStr raml_file] =
     (case files E raml_file of
        None \<Rightarrow> Inl OSError
      | Some text \<Rightarrow>
          if length text = 0 then Inl (InvalidRamlFileError ''RAML File is empty'' [])
          else
            (case readline text of (line, rest) \<Rightarrow>
               let header = before_newline line in
               if header = []
               then Inl (InvalidRamlFileError
                 (''RAML header empty. Please make sure the first line '' @
                  ''of the file contains a valid RAML file definition.'') [])
               else
                 (case py_split header of
                    [raml_def, ver] \<Rightarrow>
                      if raml_def \<noteq> ''#%RAML''
                      then Inl (InvalidRamlFileError ''Not a valid RAML header: {0}.''
                        [PStr raml_def])
                      else if PStr ver \<notin> set (defaults_raml_versions (cfg E))
                      then Inl (InvalidRamlFileError ''Not a valid version of RAML: {0}.''
                        [PStr ver])
                      else if readlines rest = []
                      then Inl (InvalidRamlFileError ''No RAML data to parse.'' [])
                      else Inr ()
                  | _ \<Rightarrow>
                      Inl (InvalidRamlFileError ''Not a valid RAML header: {0}.''
                        [PStr header]))),
      [PStr raml_file])"
| "raml_header E args = (Inl TypeError, args)"

fun api_title :: "environment \<Rightarrow> unit call" where
  "api_title E [raml] =
     (bnd (dict_get raml (PStr ''title'') PNone) (\<lambda>t.
        if \<not> truthy t
        then Inl (InvalidRamlFileError ''RAML File does not define an API title.'' [])
        else Inr ()),
      [raml])"
| "api_title E args = (Inl TypeError, args)"

fun documentation :: "environment \<Rightarrow> unit call" where
  "documentation E [raml] =
     (bnd (dict_get raml (PStr ''documentation'') PNone) (\<lambda>docs.
        if truthy docs then
          bnd (py_iter docs) (\<lambda>ds.
          for_each ds (\<lambda>d.
            bnd (dict_get d (PStr ''title'') PNone) (\<lambda>t.
              if \<not> truthy t
              then Inl (InvalidRamlFileError ''API Documentation requires a title.'' [])
              else
                bnd (dict_get d (PStr ''content'') PNone) (\<lambda>c.
                  if \<not> truthy c
                  then Inl (InvalidRamlFileError
                    ''API Documentation requires content defined.'' [])
                  else Inr ()))))
        else Inr ()),
      [raml])"
| "documentation E args = (Inl TypeError, args)"

fun base_uri_params :: "environment \<Rightarrow> unit call" where
  "base_uri_params E (raml # args) =
     (bnd (dict_get raml (PStr ''baseUriParameters'') (PDict [])) (\<lambda>params.
      bnd (iteritems params) (\<lambda>kvs.
      for_each kvs (\<lambda>(k, v).
        bnd (iterkeys v) (\<lambda>vals.
          if PStr ''default'' \<notin> set vals
          then Inl (InvalidRamlFileError
            (''The 'default' parameter is not set for base URI parameter '' @ quoted ''{0}'')
            [k])
          else Inr ())))),
      raml # args)"
| "base_uri_params E [] = (Inl TypeError, [])"

fun schemas :: "environment \<Rightarrow> unit call" where
  "schemas E [raml] = (Inr (), [raml])"
| "schemas E args = (Inl TypeError, args)"

fun protocols :: "environment \<Rightarrow> unit call" where
  "protocols E (raml # args) =
     (bnd (dict_get raml (PStr ''protocols'') PNone) (\<lambda>ps.
        if truthy ps then
          bnd (py_iter ps) (\<lambda>l.
          for_each l (\<lambda>p.
            if p \<notin> set (defaults_protocols (cfg E))
            then Inl (InvalidRamlFileError
              (quoted ''{0}'' @ '' not a valid protocol for a RAML-defined API.'') [p])
            else Inr ()))
        else Inr ()),
      raml # args)"
| "protocols E [] = (Inl TypeError, [])"

fun media_type :: "environment \<Rightarrow> unit call" where
  "media_type E [raml] =
     (bnd (dict_get raml (PStr ''mediaType'') PNone) (\<lambda>mt.
        if truthy mt then
          if mt \<in> set (defaults_media_types (cfg E)) then Inr ()
          else
            bnd (re_search mt) (\<lambda>m.
              if m then Inr ()
              else Inl (InvalidRamlFileError
                (''Unsupported MIME Media Type: '' @ quoted ''{0}'' @ ''.'') [mt]))
        else Inr ()),
      [raml])"
| "media_type E args = (Inl TypeError, args)"

fun security_schemes :: "environment \<Rightarrow> unit call" where
  "security_schemes E (raml # args) =
     (bnd (dict_get raml (PStr ''securitySchemes'') (PDict [])) (\<lambda>schemes.
      bnd (py_iter schemes) (\<lambda>ss.
      bnd (map_r (\<lambda>s. bnd (iterkeys s) first) ss) (\<lambda>names.
        if names \<noteq> [] then
          for_each names (\<lambda>s.
            if s \<notin> set (custom_auth_schemes (cfg E)) then
              bnd (py_startswith s ''x-'') (\<lambda>x.
                if \<not> x
                then Inl (InvalidRamlFileError
                  (quoted ''{0}'' @ '' is not a valid Security Scheme.'') [s])
                else Inr ())
            else Inr ())
        else Inr ()))),
      raml # args)"
| "security_schemes E [] = (Inl TypeError, [])"

fun uri_params :: "environment \<Rightarrow> unit call" where
  "uri_params E (raml # args) =
     (bnd (dict_get raml (PStr ''uriParameters'') (PDict [])) (\<lambda>params.
      bnd (iterkeys params) (\<lambda>ks.
      for_each ks (\<lambda>k.
        bnd (py_lower k) (\<lambda>l.
          if l = ''version''
          then Inl (InvalidRamlFileError
            (quoted ''version'' @ '' can only be defined in baseUriParameters.'') [])
          else Inr ())))),
      raml # args)"
| "uri_params E [] = (Inl TypeError, [])"

section \<open>Parameter and media type checks\<close>

fun primative_parameter :: "environment \<Rightarrow> pyval \<Rightarrow> unit result" where
  "primative_parameter E parameter =
     bnd (itervalues parameter) (\<lambda>vs.
     bnd (first vs) (\<lambda>p.
     bnd (dict_get p (PStr ''type'') PNone) (\<lambda>prim_type.
       if prim_type \<notin> set (defaults_prim_types (cfg E)) \<and> prim_type \<noteq> PNone
       then Inl (InvalidRamlFileError
         (quoted ''{0}'' @ '' is not a valid primative parameter type'') [prim_type])
       else Inr ())))"

fun check_media_type :: "environment \<Rightarrow> pyval \<Rightarrow> unit result" where
  "check_media_type E mt =
     (if mt \<in> set (defaults_media_types (cfg E)) then Inr ()
      else if mt \<in> set [PStr ''schema'', PStr ''example''] then Inr ()
      else
        bnd (re_search mt) (\<lambda>m.
          if m then Inr ()
          else Inl (InvalidRamlFileError
            (''Unsupported MIME Media Type: '' @ quoted ''{0}'' @ ''.'') [mt])))"

fun body_media_type :: "environment \<Rightarrow> pyval \<Rightarrow> unit result" where
  "body_media_type E body =
     bnd (iteritems body) (\<lambda>kvs.
     for_each kvs (\<lambda>(k, v).
       bnd (check_media_type E k) (\<lambda>_.
         if k \<in> set [PStr ''application/x-www-form-urlencoded'', PStr ''multipart/form-data'']
         then
           bnd (iterkeys v) (\<lambda>props.
             if PStr ''schema'' \<in> set props
             then Inl (InvalidRamlFileError
               (quoted ''schema'' @ '' may not be specified when the body's media '' @
                ''type is application/x-www-form-urlencoded or '' @
                ''multipart/form-data.'') [])
             else Inr ())
         else Inr ())))"

section \<open>Trait, resource type and resource validation\<close>

text \<open>\<open>resource.data.get(k, default)\<close>.\<close>

definition data_get :: "pyval \<Rightarrow> pyval \<Rightarrow> pyval \<Rightarrow> pyval result" where
  "data_get resource k dflt = bnd (getattr resource ''data'') (\<lambda>d. dict_get d k dflt)"

text \<open>\<open>resource.data.get(getattr(resource, a), {}).get(property, {})\<close>.\<close>

definition scoped_get :: "pyval \<Rightarrow> string \<Rightarrow> string \<Rightarrow> pyval result" where
  "scoped_get resource a property =
     bnd (getattr resource ''data'') (\<lambda>d.
     bnd (getattr resource a) (\<lambda>m.
     bnd (dict_get d m (PDict [])) (\<lambda>scope.
     dict_get scope (PStr property) (PDict []))))"

text \<open>\<open>resource.data.get(resource.method) is not None\<close>.\<close>

definition method_defined :: "pyval \<Rightarrow> bool result" where
  "method_defined resource =
     bnd (getattr resource ''data'') (\<lambda>d.
     bnd (getattr resource ''method'') (\<lambda>m.
     bnd (dict_get d m PNone) (\<lambda>x. Inr (x \<noteq> PNone))))"

fun responses :: "environment \<Rightarrow> unit call" where
  "responses E (resource # args) =
     (bnd (if hasattr resource ''method'' then method_defined resource else Inr False)
        (\<lambda>by_method.
      bnd (if by_method then scoped_get resource ''method'' ''responses''
           else if hasattr resource ''orig_method''
           then scoped_get resource ''orig_method'' ''responses''
           else data_get resource (PStr ''responses'') (PDict [])) (\<lambda>resp.
      bnd (iterkeys resp) (\<lambda>codes.
      bnd (for_each codes (\<lambda>code.
             if code \<notin> set (custom_resp_codes (cfg E))
             then Inl (InvalidRamlFileError
               (quoted ''{0}'' @ '' not a valid response code.'') [code])
             else Inr ())) (\<lambda>_.
      bnd (itervalues resp) (\<lambda>items.
      for_each items (\<lambda>item.
        bnd (dict_get item (PStr ''body'') (PDict [])) (\<lambda>body.
        body_media_type E body))))))),
      resource # args)"
| "responses E [] = (Inl TypeError, [])"

text \<open>\<open>dict(items)\<close>: a later pair replaces the value of a key and keeps its place.\<close>

fun dict_set :: "(pyval \<times> pyval) list \<Rightarrow> pyval \<Rightarrow> pyval \<Rightarrow> (pyval \<times> pyval) list" where
  "dict_set [] k v = [(k, v)]"
| "dict_set ((k', v') # kvs) k v =
     (if k' = k then (k', v) # kvs else (k', v') # dict_set kvs k v)"

definition dict_of_items :: "(pyval \<times> pyval) list \<Rightarrow> pyval" where
  "dict_of_items items = PDict (foldl (\<lambda>d (k, v). dict_set d k v) [] items)"

text \<open>
  The bodies of \<^verbatim>\<open>__query_params\<close>, \<^verbatim>\<open>__uri_params_resource\<close> and
  \<^verbatim>\<open>__form_params\<close> differ in the property name only.
\<close>

definition merged_params :: "environment \<Rightarrow> string \<Rightarrow> pyval \<Rightarrow> unit result" where
  "merged_params E property resource =
     bnd (data_get resource (PStr property) (PDict [])) (\<lambda>resource_params.
     bnd (if hasattr resource ''orig_method'' then scoped_get resource ''orig_method'' property
          else if hasattr resource ''method'' then
            bnd (method_defined resource) (\<lambda>defined.
              if defined then scoped_get resource ''method'' property else Inr (PDict []))
          else Inr (PDict [])) (\<lambda>method_params.
     bnd (iteritems method_params) (\<lambda>mi.
     bnd (iteritems resource_params) (\<lambda>ri.
       let params = dict_of_items (mi @ ri) in
       if truthy params then primative_parameter E params else Inr ()))))"

fun query_params :: "environment \<Rightarrow> unit call" where
  "query_params E (resource # args) =
     (merged_params E ''queryParameters'' resource, resource # args)"
| "query_params E [] = (Inl TypeError, [])"

fun uri_params_resource :: "environment \<Rightarrow> unit call" where
  "uri_params_resource E (resource # args) =
     (merged_params E ''uriParameters'' resource, resource # args)"
| "uri_params_resource E [] = (Inl TypeError, [])"

fun form_params :: "environment \<Rightarrow> unit call" where
  "form_params E (resource # args) =
     (merged_params E ''formParameters'' resource, resource # args)"
| "form_params E [] = (Inl TypeError, [])"

fun headers :: "environment \<Rightarrow> unit call" where
  "headers E (resource # args) = (Inr (), resource # args)"
| "headers E [] = (Inl TypeError, [])"

text \<open>
  In \<^verbatim>\<open>__body\<close> the test for \<^verbatim>\<open>orig_method\<close> is an \<^verbatim>\<open>if\<close> of its
  own, and the \<^verbatim>\<open>if\<close>/\<^verbatim>\<open>else\<close> on \<^verbatim>\<open>method\<close> that follows assigns
  \<^verbatim>\<open>body\<close> again on each of its paths.
\<close>

fun body :: "environment \<Rightarrow> unit call" where
  "body E (resource # args) =
     (bnd (if hasattr resource ''orig_method''
           then bnd (scoped_get resource ''orig_method'' ''body'') (\<lambda>b. Inr (Some b))
           else Inr None) (\<lambda>body_orig.
      bnd (if hasattr resource ''method'' then
             bnd (method_defined resource) (\<lambda>defined.
               if defined then scoped_get resource ''method'' ''body''
               else data_get resource (PStr ''body'') (PDict []))
           else data_get resource (PStr ''body'') (PDict [])) (\<lambda>b.
      body_media_type E b)),
      resource # args)"
| "body E [] = (Inl TypeError, [])"

fun description :: "environment \<Rightarrow> unit call" where
  "description E (resource # args) = (Inr (), resource # args)"
| "description E [] = (Inl TypeError, [])"

fun base_uri_params_resource :: "environment \<Rightarrow> unit call" where
  "base_uri_params_resource E (resource # args) = (Inr (), resource # args)"
| "base_uri_params_resource E [] = (Inl TypeError, [])"

text \<open>
  \<^verbatim>\<open>__set_type\<close> reads \<^verbatim>\<open>resource.data.get('type')\<close> and
  \<^verbatim>\<open>__resource_type\<close> reads \<^verbatim>\<open>resource.type\<close>; the statements that follow
  are the same in both.
\<close>

definition assigned_type :: "pyval \<Rightarrow> pyval list \<Rightarrow> pyval \<Rightarrow> unit result" where
  "assigned_type resource args assigned =
     (if \<not> truthy assigned then Inr ()
      else
        bnd (if is_dict assigned \<or> is_list assigned then
               bnd (py_len assigned) (\<lambda>n.
                 if n > 1 then
                   bnd (getattr resource ''name'') (\<lambda>nm.
                     Inl (InvalidRamlFileError
                       (''Too many resource types applied to '' @ quoted ''{0}'' @ ''.'') [nm]))
                 else Inr ())
             else Inr ()) (\<lambda>_.
        bnd (if is_dict assigned then bnd (iterkeys assigned) first
             else if is_list assigned then bnd (py_iter assigned) first
             else Inr assigned) (\<lambda>a.
        bnd (first args) (\<lambda>root.
        bnd (getattr root ''resource_types'') (\<lambda>rts.
        bnd (py_iter rts) (\<lambda>rs.
        bnd (map_r (\<lambda>r. getattr r ''name'') rs) (\<lambda>valid_resource_types.
          if a \<notin> set valid_resource_types
          then Inl (InvalidRamlFileError
            (quoted ''{0}'' @ '' is not defined in resourceTypes'') [a])
          else Inr ())))))))"

fun set_type :: "environment \<Rightarrow> unit call" where
  "set_type E (resource # args) =
     (bnd (data_get resource (PStr ''type'') PNone) (\<lambda>assigned.
        assigned_type resource args assigned),
      resource # args)"
| "set_type E [] = (Inl TypeError, [])"

fun resource_type :: "environment \<Rightarrow> unit call" where
  "resource_type E (resource # args) =
     (bnd (getattr resource ''type'') (\<lambda>assigned.
        assigned_type resource args assigned),
      resource # args)"
| "resource_type E [] = (Inl TypeError, [])"

fun secured_by :: "environment \<Rightarrow> unit call" where
  "secured_by E (resource # args) =
     (bnd (data_get resource (PStr ''securedBy'') PNone) (\<lambda>sb.
        if \<not> truthy sb then Inr ()
        else
          bnd (first args) (\<lambda>root.
          bnd (getattr root ''security_schemes'') (\<lambda>schemes.
            if \<not> truthy schemes then
              bnd (getattr resource ''name'') (\<lambda>nm.
                Inl (InvalidRamlFileError
                  (''No Security Schemes are defined in RAML file but {0} '' @
                   ''scheme is assigned to '' @ quoted ''{1}'' @ ''.'') [sb, nm]))
            else
              bnd (py_iter sb) (\<lambda>ss.
              for_each ss (\<lambda>s.
                bnd (if is_dict s then bnd (iterkeys s) first else Inr s) (\<lambda>scheme.
                bnd (py_iter schemes) (\<lambda>rs.
                bnd (map_r (\<lambda>r. getattr r ''name'') rs) (\<lambda>scheme_names.
                  if scheme \<notin> set scheme_names then
                    bnd (getattr resource ''name'') (\<lambda>nm.
                      Inl (InvalidRamlFileError
                        (quoted ''{0}'' @ '' is applied to '' @ quoted ''{1}'' @
                         '' but is not defined in the securitySchemes'') [scheme, nm]))
                  else Inr ())))))))),
      resource # args)"
| "secured_by E [] = (Inl TypeError, [])"

section \<open>Security scheme validation\<close>

definition oauth2_attrs :: "string list" where
  "oauth2_attrs = [''authorizationUri'', ''accessTokenUri'', ''authorizationGrants'', ''scopes'']"

definition oauth1_attrs :: "string list" where
  "oauth1_attrs = [''requestTokenUri'', ''authorizationUri'', ''tokenCredentialsUri'']"

text \<open>The loop \<^verbatim>\<open>for attr in required: if attr not in attrs: raise\<close>.\<close>

definition need_attrs :: "string \<Rightarrow> string list \<Rightarrow> pyval list \<Rightarrow> unit result" where
  "need_attrs version_name required attrs =
     for_each required (\<lambda>attr.
       if PStr attr \<notin> set attrs
       then Inl (InvalidRamlFileError
         (''Need to defined '' @ quoted ''{0}'' @ '' in securitySchemas settings '' @
          ''for a valid '' @ version_name @ '' scheme'') [PStr attr])
       else Inr ())"

fun security_settings :: "environment \<Rightarrow> unit call" where
  "security_settings E (scheme # args) =
     (bnd (data_get scheme (PStr ''settings'') PNone) (\<lambda>settings.
        if \<not> truthy settings then Inr ()
        else
          bnd (iterkeys settings) (\<lambda>attrs.
          bnd (getattr scheme ''type'') (\<lambda>ty.
          bnd (if ty = PStr ''OAuth 2.0'' then need_attrs ''OAuth 2.0'' oauth2_attrs attrs
               else Inr ()) (\<lambda>_.
          if ty = PStr ''OAuth 1.0'' then need_attrs ''OAuth 1.0'' oauth1_attrs attrs
          else Inr ())))),
      scheme # args)"
| "security_settings E [] = (Inl TypeError, [])"

section \<open>Resources\<close>

fun has_resources :: "environment \<Rightarrow> unit call" where
  "has_resources E (resources # args) =
     (if \<not> truthy resources
      then Inl (InvalidRamlFileError ''No resources are defined.'' [])
      else
        bnd (py_len resources) (\<lambda>n.
          if n < 1 then Inl (InvalidRamlFileError ''No resources are defined.'' [])
          else Inr ()),
      resources # args)"
| "has_resources E [] = (Inl TypeError, [])"

section \<open>The rule registries and the decorators\<close>

definition func_rules :: "(string \<times> (environment \<Rightarrow> unit call)) list" where
  "func_rules =
     [(''_set_base_uri'', base_uri),
      (''_set_version'', version),
      (''__raml_header'', raml_header),
      (''_set_title'', api_title),
      (''_set_docs'', documentation),
      (''_set_base_uri_params'', base_uri_params),
      (''_set_schemas'', schemas),
      (''_set_protocols'', protocols),
      (''_set_media_type'', media_type),
      (''_parse_security_schemes'', security_schemes),
      (''_set_uri_params'', uri_params),
      (''__get_resource_type'', resource_type),
      (''__set_settings_dict'', security_settings),
      (''__get_secured_by'', secured_by),
      (''__add_properties_to_resources'', has_resources),
      (''__set_type'', set_type)]"

definition prop_rules :: "(string \<times> (environment \<Rightarrow> unit call)) list" where
  "prop_rules =
     [(''responses'', responses),
      (''queryParameters'', query_params),
      (''uriParameters'', uri_params_resource),
      (''formParameters'', form_params),
      (''headers'', headers),
      (''body'', body),
      (''description'', description),
      (''mediaType'', media_type),
      (''baseUriParameters'', base_uri_params_resource)]"

text \<open>Indexing the dict literal: a \<open>KeyError\<close> for a name it does not hold.\<close>

definition map_to_validate_func :: "string \<Rightarrow> (environment \<Rightarrow> unit call) result" where
  "map_to_validate_func func_name =
     (case map_of func_rules func_name of None \<Rightarrow> Inl KeyError | Some rule \<Rightarrow> Inr rule)"

fun map_to_validate_prop :: "pyval \<Rightarrow> (environment \<Rightarrow> unit call) result" where
  "map_to_validate_prop (PStr property) =
     (case map_of prop_rules property of None \<Rightarrow> Inl KeyError | Some rule \<Rightarrow> Inr rule)"
| "map_to_validate_prop (PList xs) = Inl TypeError"
| "map_to_validate_prop (PDict kvs) = Inl TypeError"
| "map_to_validate_prop _ = Inl KeyError"

text \<open>
  Both wrappers decide alike whether to validate: the environment variable first, the
  configuration when the variable is not \<^verbatim>\<open>'1'\<close>.
\<close>

definition enabled :: "environment \<Rightarrow> bool" where
  "enabled E =
     (let v = (RAML_VALIDATE E = Some ''1'') in
      if \<not> v then main_validate (cfg E) = ''True'' else v)"

text \<open>
  \<^verbatim>\<open>validate(func)\<close>: \<open>func_name\<close> is \<^verbatim>\<open>func.__name__\<close>. The rule and then
  \<open>func\<close> get the same objects, \<open>func\<close> as the rule left them.
\<close>

fun validate :: "environment \<Rightarrow> string \<Rightarrow> 'a call \<Rightarrow> 'a call" where
  "validate E func_name func (raml # args) =
     (if enabled E then
        (case map_to_validate_func func_name of
           Inl e \<Rightarrow> (Inl e, raml # args)
         | Inr rule \<Rightarrow>
             (case rule E (raml # args) of
                (Inl e, objs) \<Rightarrow> (Inl e, objs)
              | (Inr u, objs) \<Rightarrow> func objs))
      else func (raml # args))"
| "validate E func_name func [] = (Inl TypeError, [])"

text \<open>
  \<^verbatim>\<open>validate_property(func)\<close>: the rule is found by the property, the second
  argument, and is called without it.
\<close>

fun with_property :: "pyval \<Rightarrow> pyval list \<Rightarrow> pyval list" where
  "with_property property (resource # args) = resource # property # args"
| "with_property property [] = [property]"

fun validate_property :: "environment \<Rightarrow> 'a call \<Rightarrow> 'a call" where
  "validate_property E func (resource # property # args) =
     (if enabled E then
        (case map_to_validate_prop property of
           Inl e \<Rightarrow> (Inl e, resource # property # args)
         | Inr rule \<Rightarrow>
             (case rule E (resource # args) of
                (Inl e, objs) \<Rightarrow> (Inl e, with_property property objs)
              | (Inr u, objs) \<Rightarrow> func (with_property property objs)))
      else func (resource # property # args))"
| "validate_property E func args = (Inl TypeError, args)"

section \<open>The rules on a store of objects\<close>

text \<open>
  The rules above work on values, which nothing can change. To say what a rule does to the
  objects it is handed, the module is translated once more, this time on a store: a dict, a
  list or an object of the model lives in the store under a reference, and a value is a
  scalar or a reference. A program takes the store and gives its outcome and the store it
  leaves. It looks at the store with \<open>p_read\<close> and changes it with \<open>p_write\<close>; an
  assignment to an item or an attribute, or a call of \<^verbatim>\<open>append\<close>, \<^verbatim>\<open>update\<close> or
  \<^verbatim>\<open>pop\<close>, would be a \<open>p_write\<close>. A dict that a rule builds for itself (the default
  \<^verbatim>\<open>{}\<close> of a \<open>get\<close>, the result of \<^verbatim>\<open>dict(...)\<close>) is new and reachable from no
  argument; it is the value \<open>VNew\<close> of its contents, whose members still refer into the
  store. The lists made by \<^verbatim>\<open>list(...)\<close> and by comprehensions are lists of values.
  Values are compared as they stand: two references are equal when they are the same
  reference. A reference that the store does not hold refers to no object, and every
  operation on it fails as on a scalar.
\<close>

type_synonym ref = nat

datatype hval = VNone | VBool bool | VInt int | VStr string | VRef ref | VNew hobj
  and hobj =
    OList "hval list"
  | ODict "(hval \<times> hval) list"
  | OObj "(string \<times> hval) list"

type_synonym store = "ref \<Rightarrow> hobj option"

datatype herror =
    HInvalidRamlFileError string "hval list"
  | HAttributeError
  | HTypeError
  | HIndexError
  | HKeyError
  | HOSError

type_synonym 'a prog = "store \<Rightarrow> (herror + 'a) \<times> store"

definition p_return :: "'a \<Rightarrow> 'a prog" where
  "p_return x s = (Inr x, s)"

definition p_raise :: "herror \<Rightarrow> 'a prog" where
  "p_raise e s = (Inl e, s)"

definition p_bind :: "'a prog \<Rightarrow> ('a \<Rightarrow> 'b prog) \<Rightarrow> 'b prog" where
  "p_bind m f s = (case m s of (Inl e, s') \<Rightarrow> (Inl e, s') | (Inr x, s') \<Rightarrow> f x s')"

definition p_read :: "(store \<Rightarrow> 'a) \<Rightarrow> 'a prog" where
  "p_read f s = (Inr (f s), s)"

definition p_write :: "ref \<Rightarrow> hobj \<Rightarrow> unit prog" where
  "p_write r ob s = (Inr (), s(r \<mapsto> ob))"

text \<open>The object a value refers to; a scalar refers to none.\<close>

fun deref :: "hval \<Rightarrow> store \<Rightarrow> hobj option" where
  "deref (VRef r) s = s r"
| "deref (VNew ob) s = Some ob"
| "deref _ s = None"

text \<open>\<open>d.get(k, default)\<close>.\<close>

definition o_get :: "hval \<Rightarrow> hval \<Rightarrow> hval \<Rightarrow> hval prog" where
  "o_get d k dflt =
     p_bind (p_read (deref d)) (\<lambda>ob.
       case ob of
         Some (ODict kvs) \<Rightarrow> p_return (case map_of kvs k of None \<Rightarrow> dflt | Some v \<Rightarrow> v)
       | _ \<Rightarrow> p_raise HAttributeError)"

definition o_hasattr :: "hval \<Rightarrow> string \<Rightarrow> bool prog" where
  "o_hasattr x a =
     p_bind (p_read (deref x)) (\<lambda>ob.
       case ob of
         Some (OObj attrs) \<Rightarrow> p_return (map_of attrs a \<noteq> None)
       | _ \<Rightarrow> p_return False)"

definition o_getattr :: "hval \<Rightarrow> string \<Rightarrow> hval prog" where
  "o_getattr x a =
     p_bind (p_read (deref x)) (\<lambda>ob.
       case ob of
         Some (OObj attrs) \<Rightarrow>
           (case map_of attrs a of None \<Rightarrow> p_raise HAttributeError | Some v \<Rightarrow> p_return v)
       | _ \<Rightarrow> p_raise HAttributeError)"

text \<open>\<open>list(iterkeys(d))\<close>, \<open>list(itervalues(d))\<close>, \<open>list(iteritems(d))\<close>.\<close>

definition o_keys :: "hval \<Rightarrow> hval list prog" where
  "o_keys d =
     p_bind (p_read (deref d)) (\<lambda>ob.
       case ob of Some (ODict kvs) \<Rightarrow> p_return (map fst kvs) | _ \<Rightarrow> p_raise HAttributeError)"

definition o_values :: "hval \<Rightarrow> hval list prog" where
  "o_values d =
     p_bind (p_read (deref d)) (\<lambda>ob.
       case ob of Some (ODict kvs) \<Rightarrow> p_return (map snd kvs) | _ \<Rightarrow> p_raise HAttributeError)"

definition o_items :: "hval \<Rightarrow> (hval \<times> hval) list prog" where
  "o_items d =
     p_bind (p_read (deref d)) (\<lambda>ob.
       case ob of Some (ODict kvs) \<Rightarrow> p_return kvs | _ \<Rightarrow> p_raise HAttributeError)"

text \<open>The members that \<open>for x in v\<close> goes through.\<close>

definition o_iter :: "hval \<Rightarrow> hval list prog" where
  "o_iter x =
     (case x of
        VStr s \<Rightarrow> p_return (map (\<lambda>c. VStr [c]) s)
      | _ \<Rightarrow>
          p_bind (p_read (deref x)) (\<lambda>ob.
            case ob of
              Some (OList xs) \<Rightarrow> p_return xs
            | Some (ODict kvs) \<Rightarrow> p_return (map fst kvs)
            | _ \<Rightarrow> p_raise HTypeError))"

definition o_len :: "hval \<Rightarrow> nat prog" where
  "o_len x =
     (case x of
        VStr s \<Rightarrow> p_return (length s)
      | _ \<Rightarrow>
          p_bind (p_read (deref x)) (\<lambda>ob.
            case ob of
              Some (OList xs) \<Rightarrow> p_return (length xs)
            | Some (ODict kvs) \<Rightarrow> p_return (length kvs)
            | _ \<Rightarrow> p_raise HTypeError))"

text \<open>The value as a condition.\<close>

definition o_truthy :: "hval \<Rightarrow> bool prog" where
  "o_truthy x =
     (case x of
        VNone \<Rightarrow> p_return False
      | VBool b \<Rightarrow> p_return b
      | VInt i \<Rightarrow> p_return (i \<noteq> 0)
      | VStr s \<Rightarrow> p_return (s \<noteq> [])
      | _ \<Rightarrow>
          p_bind (p_read (deref x)) (\<lambda>ob.
            p_return (case ob of
              Some (OList xs) \<Rightarrow> xs \<noteq> []
            | Some (ODict kvs) \<Rightarrow> kvs \<noteq> []
            | _ \<Rightarrow> True)))"

definition o_is_dict :: "hval \<Rightarrow> bool prog" where
  "o_is_dict x =
     p_bind (p_read (deref x)) (\<lambda>ob.
       p_return (case ob of Some (ODict kvs) \<Rightarrow> True | _ \<Rightarrow> False))"

definition o_is_list :: "hval \<Rightarrow> bool prog" where
  "o_is_list x =
     p_bind (p_read (deref x)) (\<lambda>ob.
       p_return (case ob of Some (OList xs) \<Rightarrow> True | _ \<Rightarrow> False))"

text \<open>\<open>x in c\<close>.\<close>

definition o_in :: "hval \<Rightarrow> hval \<Rightarrow> bool prog" where
  "o_in x c =
     (case c of
        VStr s \<Rightarrow> (case x of VStr n \<Rightarrow> p_return (contains_str n s) | _ \<Rightarrow> p_raise HTypeError)
      | _ \<Rightarrow>
          p_bind (p_read (deref c)) (\<lambda>ob.
            case ob of
              Some (OList xs) \<Rightarrow> p_return (x \<in> set xs)
            | Some (ODict kvs) \<Rightarrow> p_return (x \<in> set (map fst kvs))
            | _ \<Rightarrow> p_raise HTypeError))"

text \<open>
  \<open>d[k] = v\<close> on a dict of the store: the one operation here that changes the store. No
  rule uses it.
\<close>

definition o_setitem :: "hval \<Rightarrow> hval \<Rightarrow> hval \<Rightarrow> unit prog" where
  "o_setitem d k v =
     p_bind (p_read (deref d)) (\<lambda>ob.
       case (d, ob) of
         (VRef r, Some (ODict kvs)) \<Rightarrow>
           p_write r (ODict (if k \<in> set (map fst kvs)
             then map (\<lambda>(k', v'). if k' = k then (k', v) else (k', v')) kvs
             else kvs @ [(k, v)]))
       | _ \<Rightarrow> p_raise HTypeError)"

text \<open>Operations on scalars and on the configured lists, which hold scalars.\<close>

fun p_lower :: "hval \<Rightarrow> string prog" where
  "p_lower (VStr s) = p_return (map lower_char s)"
| "p_lower _ = p_raise HAttributeError"

fun p_startswith :: "hval \<Rightarrow> string \<Rightarrow> bool prog" where
  "p_startswith (VStr s) p = p_return (starts_with p s)"
| "p_startswith _ p = p_raise HAttributeError"

fun p_search :: "hval \<Rightarrow> bool prog" where
  "p_search (VStr s) = p_return (search_from s)"
| "p_search _ = p_raise HTypeError"

fun scalar :: "hval \<Rightarrow> pyval option" where
  "scalar VNone = Some PNone"
| "scalar (VBool b) = Some (PBool b)"
| "scalar (VInt i) = Some (PInt i)"
| "scalar (VStr s) = Some (PStr s)"
| "scalar (VRef r) = None"
| "scalar (VNew ob) = None"

definition in_config :: "hval \<Rightarrow> pyval list \<Rightarrow> bool" where
  "in_config x xs = (case scalar x of Some p \<Rightarrow> p \<in> set xs | None \<Rightarrow> False)"

fun p_first :: "'a list \<Rightarrow> 'a prog" where
  "p_first [] = p_raise HIndexError"
| "p_first (x # xs) = p_return x"

fun p_for_each :: "'a list \<Rightarrow> ('a \<Rightarrow> unit prog) \<Rightarrow> unit prog" where
  "p_for_each [] step = p_return ()"
| "p_for_each (x # xs) step = p_bind (step x) (\<lambda>_. p_for_each xs step)"

fun p_map :: "('a \<Rightarrow> 'b prog) \<Rightarrow> 'a list \<Rightarrow> 'b list prog" where
  "p_map f [] = p_return []"
| "p_map f (x # xs) = p_bind (f x) (\<lambda>y. p_bind (p_map f xs) (\<lambda>ys. p_return (y # ys)))"

text \<open>A program that leaves every store as it finds it.\<close>

definition reads_only :: "'a prog \<Rightarrow> bool" where
  "reads_only m = (\<forall>s. snd (m s) = s)"

subsection \<open>API metadata validation\<close>

fun base_uri_st :: "environment \<Rightarrow> hval list \<Rightarrow> unit prog" where
  "base_uri_st E [raml] =
     p_bind (o_get raml (VStr ''baseUri'') VNone) (\<lambda>b.
     p_bind (o_truthy b) (\<lambda>t.
       if \<not> t
       then p_raise (HInvalidRamlFileError ''RAML File does not define the baseUri.'' [])
       else p_return ()))"
| "base_uri_st E args = p_raise HTypeError"

fun version_st :: "environment \<Rightarrow> hval list \<Rightarrow> unit prog" where
  "version_st E (raml # prod_flag # args) =
     p_bind (o_get raml (VStr ''version'') VNone) (\<lambda>v.
     p_bind (o_truthy prod_flag) (\<lambda>p.
     p_bind (o_truthy v) (\<lambda>t.
       if p \<and> \<not> t
       then p_raise (HInvalidRamlFileError ''RAML File does not define an API version.'' [])
       else
         p_bind (o_get raml (VStr ''baseUri'') VNone) (\<lambda>b.
         p_bind (o_in (VStr ''{version}'') b) (\<lambda>c.
           if c \<and> \<not> t
           then p_raise (HInvalidRamlFileError
             ''RAML File's baseUri includes {version} parameter but no version is defined.'' [])
           else p_return ())))))"
| "version_st E [raml] = p_raise HIndexError"
| "version_st E [] = p_raise HTypeError"

fun raml_header_st :: "environment \<Rightarrow> hval list \<Rightarrow> unit prog" where
  "raml_header_st E [VStr raml_file] =
     (case files E raml_file of
        None \<Rightarrow> p_raise HOSError
      | Some text \<Rightarrow>
          if length text = 0 then p_raise (HInvalidRamlFileError ''RAML File is empty'' [])
          else
            (case readline text of (line, rest) \<Rightarrow>
               let header = before_newline line in
               if header = []
               then p_raise (HInvalidRamlFileError
                 (''RAML header empty. Please make sure the first line '' @
                  ''of the file contains a valid RAML file definition.'') [])
               else
                 (case py_split header of
                    [raml_def, ver] \<Rightarrow>
                      if raml_def \<noteq> ''#%RAML''
                      then p_raise (HInvalidRamlFileError ''Not a valid RAML header: {0}.''
                        [VStr raml_def])
                      else if PStr ver \<notin> set (defaults_raml_versions (cfg E))
                      then p_raise (HInvalidRamlFileError ''Not a valid version of RAML: {0}.''
                        [VStr ver])
                      else if readlines rest = []
                      then p_raise (HInvalidRamlFileError ''No RAML data to parse.'' [])
                      else p_return ()
                  | _ \<Rightarrow>
                      p_raise (HInvalidRamlFileError ''Not a valid RAML header: {0}.''
                        [VStr header]))))"
| "raml_header_st E args = p_raise HTypeError"

fun api_title_st :: "environment \<Rightarrow> hval list \<Rightarrow> unit prog" where
  "api_title_st E [raml] =
     p_bind (o_get raml (VStr ''title'') VNone) (\<lambda>v.
     p_bind (o_truthy v) (\<lambda>t.
       if \<not> t
       then p_raise (HInvalidRamlFileError ''RAML File does not define an API title.'' [])
       else p_return ()))"
| "api_title_st E args = p_raise HTypeError"

fun documentation_st :: "environment \<Rightarrow> hval list \<Rightarrow> unit prog" where
  "documentation_st E [raml] =
     p_bind (o_get raml (VStr ''documentation'') VNone) (\<lambda>docs.
     p_bind (o_truthy docs) (\<lambda>t.
       if t then
         p_bind (o_iter docs) (\<lambda>ds.
         p_for_each ds (\<lambda>d.
           p_bind (o_get d (VStr ''title'') VNone) (\<lambda>ti.
           p_bind (o_truthy ti) (\<lambda>tt.
             if \<not> tt
             then p_raise (HInvalidRamlFileError ''API Documentation requires a title.'' [])
             else
               p_bind (o_get d (VStr ''content'') VNone) (\<lambda>c.
               p_bind (o_truthy c) (\<lambda>ct.
                 if \<not> ct
                 then p_raise (HInvalidRamlFileError
                   ''API Documentation requires content defined.'' [])
                 else p_return ()))))))
       else p_return ()))"
| "documentation_st E args = p_raise HTypeError"

fun base_uri_params_st :: "environment \<Rightarrow> hval list \<Rightarrow> unit prog" where
  "base_uri_params_st E (raml # args) =
     p_bind (o_get raml (VStr ''baseUriParameters'') (VNew (ODict []))) (\<lambda>params.
     p_bind (o_items params) (\<lambda>kvs.
     p_for_each kvs (\<lambda>(k, v).
       p_bind (o_keys v) (\<lambda>vals.
         if VStr ''default'' \<notin> set vals
         then p_raise (HInvalidRamlFileError
           (''The 'default' parameter is not set for base URI parameter '' @ quoted ''{0}'')
           [k])
         else p_return ()))))"
| "base_uri_params_st E [] = p_raise HTypeError"

fun schemas_st :: "environment \<Rightarrow> hval list \<Rightarrow> unit prog" where
  "schemas_st E [raml] = p_return ()"
| "schemas_st E args = p_raise HTypeError"

fun protocols_st :: "environment \<Rightarrow> hval list \<Rightarrow> unit prog" where
  "protocols_st E (raml # args) =
     p_bind (o_get raml (VStr ''protocols'') VNone) (\<lambda>ps.
     p_bind (o_truthy ps) (\<lambda>t.
       if t then
         p_bind (o_iter ps) (\<lambda>l.
         p_for_each l (\<lambda>p.
           if \<not> in_config p (defaults_protocols (cfg E))
           then p_raise (HInvalidRamlFileError
             (quoted ''{0}'' @ '' not a valid protocol for a RAML-defined API.'') [p])
           else p_return ()))
       else p_return ()))"
| "protocols_st E [] = p_raise HTypeError"

fun media_type_st :: "environment \<Rightarrow> hval list \<Rightarrow> unit prog" where
  "media_type_st E [raml] =
     p_bind (o_get raml (VStr ''mediaType'') VNone) (\<lambda>mt.
     p_bind (o_truthy mt) (\<lambda>t.
       if t then
         if in_config mt (defaults_media_types (cfg E)) then p_return ()
         else
           p_bind (p_search mt) (\<lambda>m.
             if m then p_return ()
             else p_raise (HInvalidRamlFileError
               (''Unsupported MIME Media Type: '' @ quoted ''{0}'' @ ''.'') [mt]))
       else p_return ()))"
| "media_type_st E args = p_raise HTypeError"

fun security_schemes_st :: "environment \<Rightarrow> hval list \<Rightarrow> unit prog" where
  "security_schemes_st E (raml # args) =
     p_bind (o_get raml (VStr ''securitySchemes'') (VNew (ODict []))) (\<lambda>schemes.
     p_bind (o_iter schemes) (\<lambda>ss.
     p_bind (p_map (\<lambda>s. p_bind (o_keys s) p_first) ss) (\<lambda>names.
       if names \<noteq> [] then
         p_for_each names (\<lambda>s.
           if \<not> in_config s (custom_auth_schemes (cfg E)) then
             p_bind (p_startswith s ''x-'') (\<lambda>x.
               if \<not> x
               then p_raise (HInvalidRamlFileError
                 (quoted ''{0}'' @ '' is not a valid Security Scheme.'') [s])
               else p_return ())
           else p_return ())
       else p_return ())))"
| "security_schemes_st E [] = p_raise HTypeError"

fun uri_params_st :: "environment \<Rightarrow> hval list \<Rightarrow> unit prog" where
  "uri_params_st E (raml # args) =
     p_bind (o_get raml (VStr ''uriParameters'') (VNew (ODict []))) (\<lambda>params.
     p_bind (o_keys params) (\<lambda>ks.
     p_for_each ks (\<lambda>k.
       p_bind (p_lower k) (\<lambda>l.
         if l = ''version''
         then p_raise (HInvalidRamlFileError
           (quoted ''version'' @ '' can only be defined in baseUriParameters.'') [])
         else p_return ()))))"
| "uri_params_st E [] = p_raise HTypeError"

subsection \<open>Parameter and media type checks\<close>

definition primative_parameter_st :: "environment \<Rightarrow> hval \<Rightarrow> unit prog" where
  "primative_parameter_st E parameter =
     p_bind (o_values parameter) (\<lambda>vs.
     p_bind (p_first vs) (\<lambda>p.
     p_bind (o_get p (VStr ''type'') VNone) (\<lambda>prim_type.
       if \<not> in_config prim_type (defaults_prim_types (cfg E)) \<and> prim_type \<noteq> VNone
       then p_raise (HInvalidRamlFileError
         (quoted ''{0}'' @ '' is not a valid primative parameter type'') [prim_type])
       else p_return ())))"

definition check_media_type_st :: "environment \<Rightarrow> hval \<Rightarrow> unit prog" where
  "check_media_type_st E mt =
     (if in_config mt (defaults_media_types (cfg E)) then p_return ()
      else if mt \<in> set [VStr ''schema'', VStr ''example''] then p_return ()
      else
        p_bind (p_search mt) (\<lambda>m.
          if m then p_return ()
          else p_raise (HInvalidRamlFileError
            (''Unsupported MIME Media Type: '' @ quoted ''{0}'' @ ''.'') [mt])))"

definition body_media_type_st :: "environment \<Rightarrow> hval \<Rightarrow> unit prog" where
  "body_media_type_st E b =
     p_bind (o_items b) (\<lambda>kvs.
     p_for_each kvs (\<lambda>(k, v).
       p_bind (check_media_type_st E k) (\<lambda>_.
         if k \<in> set [VStr ''application/x-www-form-urlencoded'', VStr ''multipart/form-data'']
         then
           p_bind (o_keys v) (\<lambda>props.
             if VStr ''schema'' \<in> set props
             then p_raise (HInvalidRamlFileError
               (quoted ''schema'' @ '' may not be specified when the body's media '' @
                ''type is application/x-www-form-urlencoded or '' @
                ''multipart/form-data.'') [])
             else p_return ())
         else p_return ())))"

subsection \<open>Trait, resource type and resource validation\<close>

text \<open>\<open>resource.data.get(k, default)\<close>.\<close>

definition data_get_st :: "hval \<Rightarrow> hval \<Rightarrow> hval \<Rightarrow> hval prog" where
  "data_get_st resource k dflt = p_bind (o_getattr resource ''data'') (\<lambda>d. o_get d k dflt)"

text \<open>\<open>resource.data.get(getattr(resource, a), {}).get(property, {})\<close>.\<close>

definition scoped_get_st :: "hval \<Rightarrow> string \<Rightarrow> string \<Rightarrow> hval prog" where
  "scoped_get_st resource a property =
     p_bind (o_getattr resource ''data'') (\<lambda>d.
     p_bind (o_getattr resource a) (\<lambda>m.
     p_bind (o_get d m (VNew (ODict []))) (\<lambda>scope.
     o_get scope (VStr property) (VNew (ODict [])))))"

text \<open>\<open>resource.data.get(resource.method) is not None\<close>.\<close>

definition method_defined_st :: "hval \<Rightarrow> bool prog" where
  "method_defined_st resource =
     p_bind (o_getattr resource ''data'') (\<lambda>d.
     p_bind (o_getattr resource ''method'') (\<lambda>m.
     p_bind (o_get d m VNone) (\<lambda>x. p_return (x \<noteq> VNone))))"

fun responses_st :: "environment \<Rightarrow> hval list \<Rightarrow> unit prog" where
  "responses_st E (resource # args) =
     p_bind (o_hasattr resource ''method'') (\<lambda>has_method.
     p_bind (if has_method then method_defined_st resource else p_return False)
       (\<lambda>by_method.
     p_bind (o_hasattr resource ''orig_method'') (\<lambda>has_orig.
     p_bind (if by_method then scoped_get_st resource ''method'' ''responses''
          else if has_orig then scoped_get_st resource ''orig_method'' ''responses''
          else data_get_st resource (VStr ''responses'') (VNew (ODict []))) (\<lambda>resp.
     p_bind (o_keys resp) (\<lambda>codes.
     p_bind (p_for_each codes (\<lambda>code.
            if \<not> in_config code (custom_resp_codes (cfg E))
            then p_raise (HInvalidRamlFileError
              (quoted ''{0}'' @ '' not a valid response code.'') [code])
            else p_return ())) (\<lambda>_.
     p_bind (o_values resp) (\<lambda>items.
     p_for_each items (\<lambda>item.
       p_bind (o_get item (VStr ''body'') (VNew (ODict []))) (\<lambda>b.
       body_media_type_st E b)))))))))"
| "responses_st E [] = p_raise HTypeError"

text \<open>\<open>dict(items)\<close>, a new dict.\<close>

fun put_item :: "(hval \<times> hval) list \<Rightarrow> hval \<Rightarrow> hval \<Rightarrow> (hval \<times> hval) list" where
  "put_item [] k v = [(k, v)]"
| "put_item ((k', v') # kvs) k v =
     (if k' = k then (k', v) # kvs else (k', v') # put_item kvs k v)"

definition new_dict :: "(hval \<times> hval) list \<Rightarrow> hval" where
  "new_dict items = VNew (ODict (foldl (\<lambda>d (k, v). put_item d k v) [] items))"

definition merged_params_st :: "environment \<Rightarrow> string \<Rightarrow> hval \<Rightarrow> unit prog" where
  "merged_params_st E property resource =
     p_bind (data_get_st resource (VStr property) (VNew (ODict []))) (\<lambda>resource_params.
     p_bind (o_hasattr resource ''orig_method'') (\<lambda>has_orig.
     p_bind (o_hasattr resource ''method'') (\<lambda>has_method.
     p_bind (if has_orig then scoped_get_st resource ''orig_method'' property
          else if has_method then
            p_bind (method_defined_st resource) (\<lambda>defined.
              if defined then scoped_get_st resource ''method'' property
              else p_return (VNew (ODict [])))
          else p_return (VNew (ODict []))) (\<lambda>method_params.
     p_bind (o_items method_params) (\<lambda>mi.
     p_bind (o_items resource_params) (\<lambda>ri.
     p_bind (o_truthy (new_dict (mi @ ri))) (\<lambda>t.
       if t then primative_parameter_st E (new_dict (mi @ ri)) else p_return ())))))))"

fun query_params_st :: "environment \<Rightarrow> hval list \<Rightarrow> unit prog" where
  "query_params_st E (resource # args) = merged_params_st E ''queryParameters'' resource"
| "query_params_st E [] = p_raise HTypeError"

fun uri_params_resource_st :: "environment \<Rightarrow> hval list \<Rightarrow> unit prog" where
  "uri_params_resource_st E (resource # args) = merged_params_st E ''uriParameters'' resource"
| "uri_params_resource_st E [] = p_raise HTypeError"

fun form_params_st :: "environment \<Rightarrow> hval list \<Rightarrow> unit prog" where
  "form_params_st E (resource # args) = merged_params_st E ''formParameters'' resource"
| "form_params_st E [] = p_raise HTypeError"

fun headers_st :: "environment \<Rightarrow> hval list \<Rightarrow> unit prog" where
  "headers_st E (resource # args) = p_return ()"
| "headers_st E [] = p_raise HTypeError"

fun body_st :: "environment \<Rightarrow> hval list \<Rightarrow> unit prog" where
  "body_st E (resource # args) =
     p_bind (o_hasattr resource ''orig_method'') (\<lambda>has_orig.
     p_bind (if has_orig
          then p_bind (scoped_get_st resource ''orig_method'' ''body'') (\<lambda>b. p_return (Some b))
          else p_return None) (\<lambda>body_orig.
     p_bind (o_hasattr resource ''method'') (\<lambda>has_method.
     p_bind (if has_method then
            p_bind (method_defined_st resource) (\<lambda>defined.
              if defined then scoped_get_st resource ''method'' ''body''
              else data_get_st resource (VStr ''body'') (VNew (ODict [])))
          else data_get_st resource (VStr ''body'') (VNew (ODict []))) (\<lambda>b.
     body_media_type_st E b))))"
| "body_st E [] = p_raise HTypeError"

fun description_st :: "environment \<Rightarrow> hval list \<Rightarrow> unit prog" where
  "description_st E (resource # args) = p_return ()"
| "description_st E [] = p_raise HTypeError"

fun base_uri_params_resource_st :: "environment \<Rightarrow> hval list \<Rightarrow> unit prog" where
  "base_uri_params_resource_st E (resource # args) = p_return ()"
| "base_uri_params_resource_st E [] = p_raise HTypeError"

definition assigned_type_st :: "hval \<Rightarrow> hval list \<Rightarrow> hval \<Rightarrow> unit prog" where
  "assigned_type_st resource args assigned =
     p_bind (o_truthy assigned) (\<lambda>t.
       if \<not> t then p_return ()
       else
         p_bind (o_is_dict assigned) (\<lambda>is_d.
         p_bind (o_is_list assigned) (\<lambda>is_l.
         p_bind (if is_d \<or> is_l then
                p_bind (o_len assigned) (\<lambda>n.
                  if n > 1 then
                    p_bind (o_getattr resource ''name'') (\<lambda>nm.
                      p_raise (HInvalidRamlFileError
                        (''Too many resource types applied to '' @ quoted ''{0}'' @ ''.'') [nm]))
                  else p_return ())
              else p_return ()) (\<lambda>_.
         p_bind (if is_d then p_bind (o_keys assigned) p_first
              else if is_l then p_bind (o_iter assigned) p_first
              else p_return assigned) (\<lambda>a.
         p_bind (p_first args) (\<lambda>root.
         p_bind (o_getattr root ''resource_types'') (\<lambda>rts.
         p_bind (o_iter rts) (\<lambda>rs.
         p_bind (p_map (\<lambda>r. o_getattr r ''name'') rs) (\<lambda>valid_resource_types.
           if a \<notin> set valid_resource_types
           then p_raise (HInvalidRamlFileError
             (quoted ''{0}'' @ '' is not defined in resourceTypes'') [a])
           else p_return ())))))))))"

fun set_type_st :: "environment \<Rightarrow> hval list \<Rightarrow> unit prog" where
  "set_type_st E (resource # args) =
     p_bind (data_get_st resource (VStr ''type'') VNone) (\<lambda>assigned.
       assigned_type_st resource args assigned)"
| "set_type_st E [] = p_raise HTypeError"

fun resource_type_st :: "environment \<Rightarrow> hval list \<Rightarrow> unit prog" where
  "resource_type_st E (resource # args) =
     p_bind (o_getattr resource ''type'') (\<lambda>assigned.
       assigned_type_st resource args assigned)"
| "resource_type_st E [] = p_raise HTypeError"

fun secured_by_st :: "environment \<Rightarrow> hval list \<Rightarrow> unit prog" where
  "secured_by_st E (resource # args) =
     p_bind (data_get_st resource (VStr ''securedBy'') VNone) (\<lambda>sb.
     p_bind (o_truthy sb) (\<lambda>t.
       if \<not> t then p_return ()
       else
         p_bind (p_first args) (\<lambda>root.
         p_bind (o_getattr root ''security_schemes'') (\<lambda>schemes.
         p_bind (o_truthy schemes) (\<lambda>st.
           if \<not> st then
             p_bind (o_getattr resource ''name'') (\<lambda>nm.
               p_raise (HInvalidRamlFileError
                 (''No Security Schemes are defined in RAML file but {0} '' @
                  ''scheme is assigned to '' @ quoted ''{1}'' @ ''.'') [sb, nm]))
           else
             p_bind (o_iter sb) (\<lambda>ss.
             p_for_each ss (\<lambda>s.
               p_bind (o_is_dict s) (\<lambda>is_d.
               p_bind (if is_d then p_bind (o_keys s) p_first else p_return s) (\<lambda>scheme.
               p_bind (o_iter schemes) (\<lambda>rs.
               p_bind (p_map (\<lambda>r. o_getattr r ''name'') rs) (\<lambda>scheme_names.
                 if scheme \<notin> set scheme_names then
                   p_bind (o_getattr resource ''name'') (\<lambda>nm.
                     p_raise (HInvalidRamlFileError
                       (quoted ''{0}'' @ '' is applied to '' @ quoted ''{1}'' @
                        '' but is not defined in the securitySchemes'') [scheme, nm]))
                 else p_return ())))))))))))"
| "secured_by_st E [] = p_raise HTypeError"

subsection \<open>Security scheme validation and resources\<close>

definition need_attrs_st :: "string \<Rightarrow> string list \<Rightarrow> hval list \<Rightarrow> unit prog" where
  "need_attrs_st version_name required attrs =
     p_for_each required (\<lambda>attr.
       if VStr attr \<notin> set attrs
       then p_raise (HInvalidRamlFileError
         (''Need to defined '' @ quoted ''{0}'' @ '' in securitySchemas settings '' @
          ''for a valid '' @ version_name @ '' scheme'') [VStr attr])
       else p_return ())"

fun security_settings_st :: "environment \<Rightarrow> hval list \<Rightarrow> unit prog" where
  "security_settings_st E (scheme # args) =
     p_bind (data_get_st scheme (VStr ''settings'') VNone) (\<lambda>settings.
     p_bind (o_truthy settings) (\<lambda>t.
       if \<not> t then p_return ()
       else
         p_bind (o_keys settings) (\<lambda>attrs.
         p_bind (o_getattr scheme ''type'') (\<lambda>ty.
         p_bind (if ty = VStr ''OAuth 2.0'' then need_attrs_st ''OAuth 2.0'' oauth2_attrs attrs
              else p_return ()) (\<lambda>_.
         if ty = VStr ''OAuth 1.0'' then need_attrs_st ''OAuth 1.0'' oauth1_attrs attrs
         else p_return ())))))"
| "security_settings_st E [] = p_raise HTypeError"

fun has_resources_st :: "environment \<Rightarrow> hval list \<Rightarrow> unit prog" where
  "has_resources_st E (resources # args) =
     p_bind (o_truthy resources) (\<lambda>t.
       if \<not> t
       then p_raise (HInvalidRamlFileError ''No resources are defined.'' [])
       else
         p_bind (o_len resources) (\<lambda>n.
           if n < 1 then p_raise (HInvalidRamlFileError ''No resources are defined.'' [])
           else p_return ()))"
| "has_resources_st E [] = p_raise HTypeError"

subsection \<open>The registries\<close>

definition func_rules_st :: "(string \<times> (environment \<Rightarrow> hval list \<Rightarrow> unit prog)) list" where
  "func_rules_st =
     [(''_set_base_uri'', base_uri_st),
      (''_set_version'', version_st),
      (''__raml_header'', raml_header_st),
      (''_set_title'', api_title_st),
      (''_set_docs'', documentation_st),
      (''_set_base_uri_params'', base_uri_params_st),
      (''_set_schemas'', schemas_st),
      (''_set_protocols'', protocols_st),
      (''_set_media_type'', media_type_st),
      (''_parse_security_schemes'', security_schemes_st),
      (''_set_uri_params'', uri_params_st),
      (''__get_resource_type'', resource_type_st),
      (''__set_settings_dict'', security_settings_st),
      (''__get_secured_by'', secured_by_st),
      (''__add_properties_to_resources'', has_resources_st),
      (''__set_type'', set_type_st)]"

definition prop_rules_st :: "(string \<times> (environment \<Rightarrow> hval list \<Rightarrow> unit prog)) list" where
  "prop_rules_st =
     [(''responses'', responses_st),
      (''queryParameters'', query_params_st),
      (''uriParameters'', uri_params_resource_st),
      (''formParameters'', form_params_st),
      (''headers'', headers_st),
      (''body'', body_st),
      (''description'', description_st),
      (''mediaType'', media_type_st),
      (''baseUriParameters'', base_uri_params_resource_st)]"

text \<open>The facts that a program leaves the store alone.\<close>

named_theorems frame

section \<open>The pattern, said without the search\<close>

text \<open>
  A string matches when it holds \<^verbatim>\<open>application/\<close>, then any number of characters of the
  bracket, then \<^verbatim>\<open>json\<close> or \<^verbatim>\<open>xml\<close>, anywhere in it. This is the reading of the
  regular expression that \<open>search_from\<close> is compared with below.
\<close>

definition matches_pattern :: "string \<Rightarrow> bool" where
  "matches_pattern s \<longleftrightarrow>
     (\<exists>p b x q. s = p @ ''application/'' @ b @ x @ q \<and> (\<forall>c\<in>set b. in_class c) \<and>
        (x = ''json'' \<or> x = ''xml''))"

section \<open>Sample inputs\<close>

text \<open>A configuration, files and objects to run the rules on.\<close>

definition sample_config :: config where
  "sample_config =
     \<lparr>main_validate = ''True'',
      defaults_raml_versions = [PStr ''0.8'', PStr ''1.0''],
      defaults_protocols = [PStr ''HTTP'', PStr ''HTTPS''],
      defaults_media_types = [PStr ''application/json'', PStr ''text/xml''],
      defaults_prim_types = [PStr ''string'', PStr ''number'', PStr ''integer'', PStr ''date'',
        PStr ''boolean'', PStr ''file''],
      custom_auth_schemes = [PStr ''oauth_1_0'', PStr ''oauth_2_0'', PStr ''basic'',
        PStr ''digest''],
      custom_resp_codes = [PInt 200, PInt 201, PInt 404]\<rparr>"

definition sample_files :: "(string \<times> string) list" where
  "sample_files =
     [(''empty.raml'', []),
      (''marker.raml'', ''#%RAML'' @ [CHR 0x0A] @ ''title: X'' @ [CHR 0x0A]),
      (''api.raml'', ''#%RAML 1.0'' @ [CHR 0x0A] @ ''title: X'' @ [CHR 0x0A]),
      (''header.raml'', ''#%RAML 1.0'' @ [CHR 0x0A])]"

definition sample_env :: "string option \<Rightarrow> string \<Rightarrow> environment" where
  "sample_env v c =
     \<lparr>RAML_VALIDATE = v, cfg = sample_config\<lparr>main_validate := c\<rparr>,
      files = map_of sample_files\<rparr>"

text \<open>A construction step that returns a value and leaves its arguments alone.\<close>

definition sample_op :: "pyval call" where
  "sample_op objs = (Inr (PStr ''built''), objs)"

text \<open>
  A resource type bound to \<^verbatim>\<open>get\<close>: it has \<^verbatim>\<open>orig_method\<close> and no
  \<^verbatim>\<open>method\<close>, and its body for \<^verbatim>\<open>get\<close> has a media type that no configuration
  value and no pattern admits.
\<close>

definition resource_type_view :: pyval where
  "resource_type_view =
     PObj [(''name'', PStr ''collection''), (''orig_method'', PStr ''get''),
       (''data'', PDict [(PStr ''get'',
          PDict [(PStr ''body'', PDict [(PStr ''text/plain'', PDict [])])])])]"

text \<open>A root that declares the resource type \<^verbatim>\<open>Collection\<close>, and one that declares none.\<close>

definition sample_root :: pyval where
  "sample_root = PObj [(''resource_types'', PList [PObj [(''name'', PStr ''Collection'')]])]"

definition bare_root :: pyval where
  "bare_root = PObj [(''resource_types'', PList [])]"

text \<open>A resource of type \<^verbatim>\<open>{Collection: {}}\<close> and one with a list of two types.\<close>

definition typed_resource :: "pyval \<Rightarrow> pyval" where
  "typed_resource t = PObj [(''name'', PStr ''/users''), (''type'', t),
     (''data'', PDict [(PStr ''type'', t)])]"

definition collection_resource :: pyval where
  "collection_resource = typed_resource (PDict [(PStr ''Collection'', PDict [])])"

definition two_types_resource :: pyval where
  "two_types_resource = typed_resource (PList [PStr ''Collection'', PStr ''Member''])"

text \<open>Query parameters whose first entry is a string and whose second has an unknown type.\<close>

definition sample_params :: "(pyval \<times> pyval) list" where
  "sample_params =
     [(PStr ''q'', PDict [(PStr ''type'', PStr ''string'')]),
      (PStr ''page'', PDict [(PStr ''type'', PStr ''bogus'')])]"

definition sample_trait :: pyval where
  "sample_trait = PObj [(''data'', PDict [(PStr ''queryParameters'', PDict sample_params)])]"

text \<open>Security schemes: a type and the settings under \<^verbatim>\<open>data\<close>.\<close>

definition sample_scheme :: "string \<Rightarrow> pyval \<Rightarrow> pyval" where
  "sample_scheme ty settings =
     PObj [(''type'', PStr ty), (''data'', PDict [(PStr ''settings'', settings)])]"

definition oauth2_without_scopes :: "(pyval \<times> pyval) list" where
  "oauth2_without_scopes =
     [(PStr ''authorizationUri'', PStr ''https://a''), (PStr ''accessTokenUri'', PStr ''https://t''),
      (PStr ''authorizationGrants'', PList [PStr ''code''])]"

definition oauth1_complete :: "(pyval \<times> pyval) list" where
  "oauth1_complete =
     [(PStr ''requestTokenUri'', PStr ''https://r''), (PStr ''authorizationUri'', PStr ''https://a''),
      (PStr ''tokenCredentialsUri'', PStr ''https://t'')]"

text \<open>
  A store: a document with a title and no base URI at reference 0, and at reference 1 a
  resource whose one query parameter has an unknown type.
\<close>

definition sample_store :: store where
  "sample_store = map_of
     [(0, ODict [(VStr ''title'', VStr ''API'')]),
      (1, OObj [(''name'', VStr ''/users''), (''data'', VRef 2)]),
      (2, ODict [(VStr ''queryParameters'', VRef 3)]),
      (3, ODict [(VStr ''q'', VRef 4)]),
      (4, ODict [(VStr ''type'', VStr ''bogus'')])]"

section \<open>Facts about the helpers\<close>

lemma bnd_unit: "bnd r (\<lambda>_. Inr ()) = r" for r :: "unit result"
  by (cases r) (simp_all add: bnd_def)

lemma bnd_Inr: "bnd r Inr = r"
  by (cases r) (simp_all add: bnd_def)

lemma starts_with_iff: "starts_with p s \<longleftrightarrow> (\<exists>q. s = p @ q)"
  by (induction p s rule: starts_with.induct) auto

lemma contains_str_append: "contains_str n (p @ n @ s)"
proof (induction p)
  case Nil
  have "starts_with n (n @ s)" unfolding starts_with_iff by blast
  then show ?case by (cases "n @ s") auto
next
  case (Cons c p)
  then show ?case by simp
qed

section \<open>The validation gate\<close>

text \<open>
  C1. When the environment variable is not \<^verbatim>\<open>'1'\<close> and the configured value is not
  \<^verbatim>\<open>'True'\<close>, a wrapped operation gives exactly what the operation itself gives on the
  same arguments, for every operation name and property, in the registry or not, and every
  argument: no rule is looked up or run, nothing is raised by the wrapper. When the variable
  is \<^verbatim>\<open>'1'\<close>, whatever the configured value, the rule is looked up and run first: its
  error is the outcome, and the operation runs when the rule returns.
\<close>

theorem gate_C1:
  "(RAML_VALIDATE E \<noteq> Some ''1'' \<and> main_validate (cfg E) \<noteq> ''True'' \<longrightarrow>
      validate E func_name func (raml # args) = func (raml # args) \<and>
      validate_property E func (resource # property # args) =
        func (resource # property # args))
   \<and> (RAML_VALIDATE E = Some ''1'' \<longrightarrow>
      validate E func_name func (raml # args) =
        (case map_to_validate_func func_name of
           Inl e \<Rightarrow> (Inl e, raml # args)
         | Inr rule \<Rightarrow>
             (case rule E (raml # args) of
                (Inl e, objs) \<Rightarrow> (Inl e, objs)
              | (Inr u, objs) \<Rightarrow> func objs)) \<and>
      validate_property E func (resource # property # args) =
        (case map_to_validate_prop property of
           Inl e \<Rightarrow> (Inl e, resource # property # args)
         | Inr rule \<Rightarrow>
             (case rule E (resource # args) of
                (Inl e, objs) \<Rightarrow> (Inl e, with_property property objs)
              | (Inr u, objs) \<Rightarrow> func (with_property property objs))))"
  by (simp add: enabled_def)

theorem gate_C1_witness:
  "validate (sample_env None ''False'') ''_set_base_uri'' sample_op [PDict []] =
     (Inr (PStr ''built''), [PDict []]) \<and>
   validate_property (sample_env None ''False'') sample_op [PDict [], PStr ''unknown''] =
     (Inr (PStr ''built''), [PDict [], PStr ''unknown'']) \<and>
   validate (sample_env (Some ''1'') ''False'') ''_set_base_uri'' sample_op [PDict []] =
     (Inl (InvalidRamlFileError ''RAML File does not define the baseUri.'' []), [PDict []]) \<and>
   validate_property (sample_env (Some ''1'') ''False'') sample_op [PDict [], PStr ''unknown''] =
     (Inl KeyError, [PDict [], PStr ''unknown''])"
  using gate_C1 [of "sample_env None ''False''" "''_set_base_uri''" sample_op "PDict []" "[]"
      "PDict []" "PStr ''unknown''"]
    gate_C1 [of "sample_env (Some ''1'') ''False''" "''_set_base_uri''" sample_op "PDict []" "[]"
      "PDict []" "PStr ''unknown''"]
  by (simp add: sample_env_def sample_op_def map_to_validate_func_def func_rules_def
      prop_rules_def bnd_def)

section \<open>The media type checks\<close>

lemma class_then_suffix_iff:
  "class_then_suffix s \<longleftrightarrow>
     (\<exists>b x q. s = b @ x @ q \<and> (\<forall>c\<in>set b. in_class c) \<and> (x = ''json'' \<or> x = ''xml''))"
proof (induction s)
  case Nil
  then show ?case by auto
next
  case (Cons c cs)
  show ?case
  proof
    assume "class_then_suffix (c # cs)"
    then consider "starts_with ''json'' (c # cs)" | "starts_with ''xml'' (c # cs)"
      | "in_class c" "class_then_suffix cs"
      by auto
    then show "\<exists>b x q. c # cs = b @ x @ q \<and> (\<forall>c\<in>set b. in_class c) \<and> (x = ''json'' \<or> x = ''xml'')"
    proof cases
      case 1
      then obtain q where "c # cs = ''json'' @ q" unfolding starts_with_iff by blast
      then have "c # cs = [] @ ''json'' @ q \<and> (\<forall>c\<in>set []. in_class c)" by simp
      then show ?thesis by blast
    next
      case 2
      then obtain q where "c # cs = ''xml'' @ q" unfolding starts_with_iff by blast
      then have "c # cs = [] @ ''xml'' @ q \<and> (\<forall>c\<in>set []. in_class c)" by simp
      then show ?thesis by blast
    next
      case 3
      then obtain b x q where
        h: "cs = b @ x @ q" "\<forall>c\<in>set b. in_class c" "x = ''json'' \<or> x = ''xml''"
        using Cons.IH by blast
      then have "c # cs = (c # b) @ x @ q \<and> (\<forall>c\<in>set (c # b). in_class c)"
        using 3(1) by simp
      then show ?thesis using h(3) by blast
    qed
  next
    assume "\<exists>b x q. c # cs = b @ x @ q \<and> (\<forall>c\<in>set b. in_class c) \<and> (x = ''json'' \<or> x = ''xml'')"
    then obtain b x q where
      h: "c # cs = b @ x @ q" "\<forall>c\<in>set b. in_class c" "x = ''json'' \<or> x = ''xml''"
      by blast
    show "class_then_suffix (c # cs)"
    proof (cases b)
      case Nil
      then have "c # cs = x @ q" using h(1) by simp
      then have "starts_with x (c # cs)" unfolding starts_with_iff by blast
      then show ?thesis using h(3) by auto
    next
      case (Cons c' b')
      then have "c = c'" "cs = b' @ x @ q" using h(1) by simp_all
      then have "in_class c" "class_then_suffix cs"
        using h(2,3) Cons Cons.IH by auto
      then show ?thesis by simp
    qed
  qed
qed

lemma match_here_iff:
  "match_here s \<longleftrightarrow>
     (\<exists>b x q. s = ''application/'' @ b @ x @ q \<and> (\<forall>c\<in>set b. in_class c) \<and>
        (x = ''json'' \<or> x = ''xml''))"
proof
  assume "match_here s"
  then obtain r where r: "s = ''application/'' @ r" and "class_then_suffix (drop 12 s)"
    unfolding match_here_def starts_with_iff by blast
  then have "class_then_suffix r" by simp
  then show "\<exists>b x q. s = ''application/'' @ b @ x @ q \<and> (\<forall>c\<in>set b. in_class c) \<and>
        (x = ''json'' \<or> x = ''xml'')"
    unfolding class_then_suffix_iff using r by blast
next
  assume "\<exists>b x q. s = ''application/'' @ b @ x @ q \<and> (\<forall>c\<in>set b. in_class c) \<and>
        (x = ''json'' \<or> x = ''xml'')"
  then obtain b x q where h: "s = ''application/'' @ (b @ x @ q)" "\<forall>c\<in>set b. in_class c"
    "x = ''json'' \<or> x = ''xml''" by auto
  have "class_then_suffix (b @ x @ q)" unfolding class_then_suffix_iff using h(2,3) by blast
  moreover have "drop 12 s = b @ x @ q" unfolding h(1) by simp
  moreover have "starts_with ''application/'' s" unfolding starts_with_iff using h(1) by blast
  ultimately show "match_here s" unfolding match_here_def by simp
qed

lemma search_from_iff: "search_from s \<longleftrightarrow> (\<exists>p r. s = p @ r \<and> match_here r)"
proof (induction s)
  case Nil
  then show ?case by simp
next
  case (Cons c cs)
  show ?case
  proof
    assume "search_from (c # cs)"
    then consider "match_here (c # cs)" | "search_from cs" by auto
    then show "\<exists>p r. c # cs = p @ r \<and> match_here r"
    proof cases
      case 1
      then have "c # cs = [] @ (c # cs) \<and> match_here (c # cs)" by simp
      then show ?thesis by blast
    next
      case 2
      then obtain p r where "cs = p @ r" "match_here r" using Cons.IH by blast
      then have "c # cs = (c # p) @ r \<and> match_here r" by simp
      then show ?thesis by blast
    qed
  next
    assume "\<exists>p r. c # cs = p @ r \<and> match_here r"
    then obtain p r where h: "c # cs = p @ r" "match_here r" by blast
    show "search_from (c # cs)"
    proof (cases p)
      case Nil
      then have "match_here (c # cs)" using h by simp
      then show ?thesis by simp
    next
      case (Cons c' p')
      then have "cs = p' @ r" using h(1) by simp
      then have "search_from cs" using Cons.IH h(2) by blast
      then show ?thesis by simp
    qed
  qed
qed

lemma search_from_pattern: "search_from s \<longleftrightarrow> matches_pattern s"
  unfolding search_from_iff match_here_iff matches_pattern_def by blast

lemma search_json: "search_from ''application/json''"
  by (simp add: match_here_def)

lemma search_vnd_plus: "\<not> search_from ''application/vnd.api+json''"
  by (simp add: match_here_def in_class_def)

lemma search_vnd_dot: "search_from ''application/vnd.api.json''"
  by (simp add: match_here_def in_class_def)

lemma search_text_plain: "\<not> search_from ''text/plain''"
  by (simp add: match_here_def)

lemma search_schema: "\<not> search_from ''schema''"
  by (simp add: match_here_def)

lemma check_media_type_iff:
  "check_media_type E (PStr m) = Inr () \<longleftrightarrow>
     PStr m \<in> set (defaults_media_types (cfg E)) \<or> m = ''schema'' \<or> m = ''example'' \<or>
     matches_pattern m"
  by (simp add: bnd_def search_from_pattern)

lemma media_type_iff:
  assumes "dict_get raml (PStr ''mediaType'') PNone = Inr (PStr m)" and "m \<noteq> []"
  shows "fst (media_type E [raml]) = Inr () \<longleftrightarrow>
     PStr m \<in> set (defaults_media_types (cfg E)) \<or> matches_pattern m"
  using assms by (simp add: bnd_def search_from_pattern)

text \<open>
  C2, as the code has it. For a document whose \<^verbatim>\<open>mediaType\<close> is the string \<open>m\<close>:
  \<^verbatim>\<open>application/json\<close> passes both checks under every configuration;
  \<^verbatim>\<open>application/vnd.api+json\<close> does not match the pattern (the plus sign is not in the
  bracket) and passes exactly when the configured list holds it;
  \<^verbatim>\<open>application/vnd.api.json\<close> matches the pattern and passes;
  \<^verbatim>\<open>text/plain\<close> fails with the unsupported media type error when the configured list
  does not hold it; \<^verbatim>\<open>schema\<close> passes the body check always and fails the root rule
  unless the configured list holds it. In general the body check passes exactly for a
  configured value, \<^verbatim>\<open>schema\<close>, \<^verbatim>\<open>example\<close> or a match of the pattern, and the
  root rule passes on a non-empty string exactly for a configured value or a match.
\<close>

theorem media_type_predicate_C2:
  assumes "dict_get raml (PStr ''mediaType'') PNone = Inr (PStr m)"
  shows
    "(m = ''application/json'' \<longrightarrow>
        check_media_type E (PStr m) = Inr () \<and> media_type E [raml] = (Inr (), [raml])) \<and>
     (m = ''application/vnd.api+json'' \<longrightarrow>
        \<not> matches_pattern m \<and>
        (check_media_type E (PStr m) = Inr () \<longleftrightarrow>
           PStr m \<in> set (defaults_media_types (cfg E))) \<and>
        (fst (media_type E [raml]) = Inr () \<longleftrightarrow>
           PStr m \<in> set (defaults_media_types (cfg E)))) \<and>
     (m = ''application/vnd.api.json'' \<longrightarrow>
        matches_pattern m \<and>
        check_media_type E (PStr m) = Inr () \<and> media_type E [raml] = (Inr (), [raml])) \<and>
     (m = ''text/plain'' \<and> PStr m \<notin> set (defaults_media_types (cfg E)) \<longrightarrow>
        check_media_type E (PStr m) =
          Inl (InvalidRamlFileError (''Unsupported MIME Media Type: '' @ quoted ''{0}'' @ ''.'')
            [PStr m]) \<and>
        media_type E [raml] =
          (Inl (InvalidRamlFileError (''Unsupported MIME Media Type: '' @ quoted ''{0}'' @ ''.'')
            [PStr m]), [raml])) \<and>
     (m = ''schema'' \<longrightarrow>
        check_media_type E (PStr m) = Inr () \<and>
        (PStr m \<notin> set (defaults_media_types (cfg E)) \<longrightarrow>
           media_type E [raml] =
             (Inl (InvalidRamlFileError
               (''Unsupported MIME Media Type: '' @ quoted ''{0}'' @ ''.'') [PStr m]), [raml]))) \<and>
     (check_media_type E (PStr m) = Inr () \<longleftrightarrow>
        PStr m \<in> set (defaults_media_types (cfg E)) \<or> m = ''schema'' \<or> m = ''example'' \<or>
        matches_pattern m) \<and>
     (m \<noteq> [] \<longrightarrow>
        (fst (media_type E [raml]) = Inr () \<longleftrightarrow>
           PStr m \<in> set (defaults_media_types (cfg E)) \<or> matches_pattern m))"
proof -
  have specific:
    "(m = ''application/json'' \<longrightarrow>
        check_media_type E (PStr m) = Inr () \<and> media_type E [raml] = (Inr (), [raml])) \<and>
     (m = ''application/vnd.api+json'' \<longrightarrow>
        \<not> matches_pattern m \<and>
        (check_media_type E (PStr m) = Inr () \<longleftrightarrow>
           PStr m \<in> set (defaults_media_types (cfg E))) \<and>
        (fst (media_type E [raml]) = Inr () \<longleftrightarrow>
           PStr m \<in> set (defaults_media_types (cfg E)))) \<and>
     (m = ''application/vnd.api.json'' \<longrightarrow>
        matches_pattern m \<and>
        check_media_type E (PStr m) = Inr () \<and> media_type E [raml] = (Inr (), [raml])) \<and>
     (m = ''text/plain'' \<and> PStr m \<notin> set (defaults_media_types (cfg E)) \<longrightarrow>
        check_media_type E (PStr m) =
          Inl (InvalidRamlFileError (''Unsupported MIME Media Type: '' @ quoted ''{0}'' @ ''.'')
            [PStr m]) \<and>
        media_type E [raml] =
          (Inl (InvalidRamlFileError (''Unsupported MIME Media Type: '' @ quoted ''{0}'' @ ''.'')
            [PStr m]), [raml])) \<and>
     (m = ''schema'' \<longrightarrow>
        check_media_type E (PStr m) = Inr () \<and>
        (PStr m \<notin> set (defaults_media_types (cfg E)) \<longrightarrow>
           media_type E [raml] =
             (Inl (InvalidRamlFileError
               (''Unsupported MIME Media Type: '' @ quoted ''{0}'' @ ''.'') [PStr m]), [raml])))"
    using assms search_json search_vnd_plus search_vnd_dot search_text_plain search_schema
    by (simp add: bnd_def flip: search_from_pattern)
  have body_check: "check_media_type E (PStr m) = Inr () \<longleftrightarrow>
      PStr m \<in> set (defaults_media_types (cfg E)) \<or> m = ''schema'' \<or> m = ''example'' \<or>
      matches_pattern m"
    by (rule check_media_type_iff)
  have root_rule: "m \<noteq> [] \<longrightarrow>
      (fst (media_type E [raml]) = Inr () \<longleftrightarrow>
         PStr m \<in> set (defaults_media_types (cfg E)) \<or> matches_pattern m)"
    using media_type_iff [OF assms, of E] by (rule impI)
  from specific body_check root_rule show ?thesis
    by (elim conjE) (intro conjI; assumption)
qed

theorem media_type_predicate_C2_witness:
  "media_type (sample_env None ''True'') [PDict [(PStr ''mediaType'', PStr ''application/json'')]] =
     (Inr (), [PDict [(PStr ''mediaType'', PStr ''application/json'')]]) \<and>
   fst (media_type (sample_env None ''True'')
     [PDict [(PStr ''mediaType'', PStr ''application/vnd.api+json'')]]) \<noteq> Inr () \<and>
   media_type (sample_env None ''True'')
     [PDict [(PStr ''mediaType'', PStr ''application/vnd.api.json'')]] =
     (Inr (), [PDict [(PStr ''mediaType'', PStr ''application/vnd.api.json'')]]) \<and>
   check_media_type (sample_env None ''True'') (PStr ''text/plain'') =
     Inl (InvalidRamlFileError (''Unsupported MIME Media Type: '' @ quoted ''{0}'' @ ''.'')
       [PStr ''text/plain'']) \<and>
   check_media_type (sample_env None ''True'') (PStr ''schema'') = Inr () \<and>
   media_type (sample_env None ''True'') [PDict [(PStr ''mediaType'', PStr ''schema'')]] =
     (Inl (InvalidRamlFileError (''Unsupported MIME Media Type: '' @ quoted ''{0}'' @ ''.'')
       [PStr ''schema'']), [PDict [(PStr ''mediaType'', PStr ''schema'')]])"
  using
    media_type_predicate_C2 [of "PDict [(PStr ''mediaType'', PStr ''application/json'')]"
      "''application/json''" "sample_env None ''True''"]
    media_type_predicate_C2 [of "PDict [(PStr ''mediaType'', PStr ''application/vnd.api+json'')]"
      "''application/vnd.api+json''" "sample_env None ''True''"]
    media_type_predicate_C2 [of "PDict [(PStr ''mediaType'', PStr ''application/vnd.api.json'')]"
      "''application/vnd.api.json''" "sample_env None ''True''"]
    media_type_predicate_C2 [of "PDict [(PStr ''mediaType'', PStr ''text/plain'')]"
      "''text/plain''" "sample_env None ''True''"]
    media_type_predicate_C2 [of "PDict [(PStr ''mediaType'', PStr ''schema'')]"
      "''schema''" "sample_env None ''True''"]
  by (simp add: sample_env_def sample_config_def)

text \<open>
  C2 as stated fails: \<^verbatim>\<open>application/vnd.api+json\<close> does not pass by the pattern. Under a
  configuration whose list does not hold it, the search finds no match and both checks raise.
\<close>

theorem media_type_predicate_C2_counterexample:
  "PStr ''application/vnd.api+json'' \<notin>
     set (defaults_media_types (cfg (sample_env None ''True''))) \<and>
   re_search (PStr ''application/vnd.api+json'') = Inr False \<and>
   check_media_type (sample_env None ''True'') (PStr ''application/vnd.api+json'') =
     Inl (InvalidRamlFileError (''Unsupported MIME Media Type: '' @ quoted ''{0}'' @ ''.'')
       [PStr ''application/vnd.api+json'']) \<and>
   media_type (sample_env None ''True'')
     [PDict [(PStr ''mediaType'', PStr ''application/vnd.api+json'')]] =
     (Inl (InvalidRamlFileError (''Unsupported MIME Media Type: '' @ quoted ''{0}'' @ ''.'')
       [PStr ''application/vnd.api+json'']),
      [PDict [(PStr ''mediaType'', PStr ''application/vnd.api+json'')]])"
  using search_vnd_plus by (simp add: sample_env_def sample_config_def bnd_def)

section \<open>The body rule\<close>

text \<open>
  C3. The claim gives \<^verbatim>\<open>orig_method\<close> precedence and says that an object with
  \<^verbatim>\<open>orig_method\<close> and without \<^verbatim>\<open>method\<close> has
  \<^verbatim>\<open>data[orig_method]['body']\<close> validated. The code does not do that: for every such
  object whose \<^verbatim>\<open>data[orig_method]['body']\<close> can be read, the mapping handed to the
  media type check is \<^verbatim>\<open>data.get('body', {})\<close>, since the second \<^verbatim>\<open>if\<close> of
  \<^verbatim>\<open>__body\<close> takes its \<^verbatim>\<open>else\<close> and assigns \<^verbatim>\<open>body\<close> again.
\<close>

theorem body_ignores_orig_method_C3:
  assumes "hasattr resource ''orig_method''" and "\<not> hasattr resource ''method''"
    and "scoped_get resource ''orig_method'' ''body'' = Inr b0"
  shows "body E (resource # args) =
    (bnd (data_get resource (PStr ''body'') (PDict [])) (body_media_type E), resource # args)"
  using assms by (simp add: bnd_def)

text \<open>
  At \<open>resource_type_view\<close> the body under \<^verbatim>\<open>get\<close> has the media type
  \<^verbatim>\<open>text/plain\<close>, which the check rejects, and the rule passes all the same.
\<close>

theorem body_ignores_orig_method_C3_witness:
  "hasattr resource_type_view ''orig_method'' \<and> \<not> hasattr resource_type_view ''method'' \<and>
   scoped_get resource_type_view ''orig_method'' ''body'' =
     Inr (PDict [(PStr ''text/plain'', PDict [])]) \<and>
   body_media_type (sample_env None ''True'') (PDict [(PStr ''text/plain'', PDict [])]) =
     Inl (InvalidRamlFileError (''Unsupported MIME Media Type: '' @ quoted ''{0}'' @ ''.'')
       [PStr ''text/plain'']) \<and>
   body (sample_env None ''True'') [resource_type_view] = (Inr (), [resource_type_view])"
  using body_ignores_orig_method_C3 [of resource_type_view
      "PDict [(PStr ''text/plain'', PDict [])]" "sample_env None ''True''" "[]"]
    search_text_plain
  by (simp add: resource_type_view_def scoped_get_def data_get_def bnd_def sample_env_def
      sample_config_def)

section \<open>The header rule\<close>







text \<open>The separators 28 to 31 cut a line like a space does.\<close>

lemma split_at_separator:
  "py_split (''#%RAML'' @ [CHR 0x1C] @ ''1.0'') = [''#%RAML'', ''1.0'']"
  by (simp add: py_split_def is_space_def)








section \<open>The resource type rules\<close>

text \<open>
  C5. In \<^verbatim>\<open>__set_type\<close> (which reads \<^verbatim>\<open>data['type']\<close>) and in
  \<^verbatim>\<open>__resource_type\<close> (which reads the attribute \<^verbatim>\<open>type\<close>) alike, the root's
  resource types being a list of named objects and the resource having a name: a mapping with the one key \<open>k\<close> passes exactly when \<open>k\<close> is
  among the names of the root's resource types; a list or a mapping with two entries or more
  raises \<^verbatim>\<open>Too many resource types applied\<close>, whatever the environment and whatever
  follows the resource in the arguments, a root or none.
\<close>

theorem resource_type_assignment_C5:
  "(getattr root ''resource_types'' = Inr (PList rts) \<and>
    map_r (\<lambda>r. getattr r ''name'') rts = Inr names \<longrightarrow>
      (data_get resource (PStr ''type'') PNone = Inr (PDict [(k, v)]) \<longrightarrow>
         (fst (set_type E (resource # root # args)) = Inr () \<longleftrightarrow> k \<in> set names)) \<and>
      (getattr resource ''type'' = Inr (PDict [(k, v)]) \<longrightarrow>
         (fst (resource_type E (resource # root # args)) = Inr () \<longleftrightarrow> k \<in> set names))) \<and>
   (getattr resource ''name'' = Inr nm \<and>
    ((assigned = PList xs \<and> 2 \<le> length xs) \<or> (assigned = PDict kvs \<and> 2 \<le> length kvs)) \<longrightarrow>
      (data_get resource (PStr ''type'') PNone = Inr assigned \<longrightarrow>
         set_type E (resource # any_args) =
           (Inl (InvalidRamlFileError
              (''Too many resource types applied to '' @ quoted ''{0}'' @ ''.'') [nm]),
            resource # any_args)) \<and>
      (getattr resource ''type'' = Inr assigned \<longrightarrow>
         resource_type E (resource # any_args) =
           (Inl (InvalidRamlFileError
              (''Too many resource types applied to '' @ quoted ''{0}'' @ ''.'') [nm]),
            resource # any_args)))"
proof -
  have one: "assigned_type resource (root # args) (PDict [(k, v)]) =
      (if k \<in> set names then Inr ()
       else Inl (InvalidRamlFileError (quoted ''{0}'' @ '' is not defined in resourceTypes'') [k]))"
    if "getattr root ''resource_types'' = Inr (PList rts)"
      "map_r (\<lambda>r. getattr r ''name'') rts = Inr names"
    using that by (simp add: assigned_type_def bnd_def)
  have many: "assigned_type resource any_args assigned =
      Inl (InvalidRamlFileError
        (''Too many resource types applied to '' @ quoted ''{0}'' @ ''.'') [nm])"
    if "getattr resource ''name'' = Inr nm"
      "(assigned = PList xs \<and> 2 \<le> length xs) \<or> (assigned = PDict kvs \<and> 2 \<le> length kvs)"
    using that by (auto simp add: assigned_type_def bnd_def)
  show ?thesis
    using one many by (auto simp add: bnd_def)
qed

theorem resource_type_assignment_C5_witness:
  "fst (set_type (sample_env None ''True'') [collection_resource, sample_root]) = Inr () \<and>
   fst (resource_type (sample_env None ''True'') [collection_resource, sample_root]) = Inr () \<and>
   fst (set_type (sample_env None ''True'') [collection_resource, bare_root]) \<noteq> Inr () \<and>
   fst (resource_type (sample_env None ''True'') [collection_resource, bare_root]) \<noteq> Inr () \<and>
   set_type (sample_env None ''True'') [two_types_resource, sample_root] =
     (Inl (InvalidRamlFileError
        (''Too many resource types applied to '' @ quoted ''{0}'' @ ''.'') [PStr ''/users'']),
      [two_types_resource, sample_root]) \<and>
   resource_type (sample_env None ''True'') [two_types_resource, sample_root] =
     (Inl (InvalidRamlFileError
        (''Too many resource types applied to '' @ quoted ''{0}'' @ ''.'') [PStr ''/users'']),
      [two_types_resource, sample_root])"
  using
    resource_type_assignment_C5 [where resource = collection_resource and root = sample_root
      and rts = "[PObj [(''name'', PStr ''Collection'')]]" and names = "[PStr ''Collection'']"
      and k = "PStr ''Collection''" and v = "PDict []" and E = "sample_env None ''True''"
      and args = "[]" and nm = "PStr ''/users''" and assigned = PNone and xs = "[]"
      and kvs = "[]" and any_args = "[]"]
    resource_type_assignment_C5 [where resource = collection_resource and root = bare_root
      and rts = "[]" and names = "[]"
      and k = "PStr ''Collection''" and v = "PDict []" and E = "sample_env None ''True''"
      and args = "[]" and nm = "PStr ''/users''" and assigned = PNone and xs = "[]"
      and kvs = "[]" and any_args = "[]"]
    resource_type_assignment_C5 [where resource = two_types_resource and root = sample_root
      and rts = "[PObj [(''name'', PStr ''Collection'')]]" and names = "[PStr ''Collection'']"
      and k = "PStr ''Collection''" and v = "PDict []" and E = "sample_env None ''True''"
      and args = "[]" and nm = "PStr ''/users''"
      and assigned = "PList [PStr ''Collection'', PStr ''Member'']"
      and xs = "[PStr ''Collection'', PStr ''Member'']"
      and kvs = "[]" and any_args = "[sample_root]"]
  by (simp add: collection_resource_def two_types_resource_def typed_resource_def
      sample_root_def bare_root_def data_get_def bnd_def)

section \<open>The primitive parameter check\<close>

lemma dict_set_fresh: "k \<notin> fst ` set d \<Longrightarrow> dict_set d k v = d @ [(k, v)]"
  by (induction d) auto

lemma foldl_dict_set_distinct:
  "distinct (map fst (d @ items)) \<Longrightarrow>
     foldl (\<lambda>d (k, v). dict_set d k v) d items = d @ items"
proof (induction items arbitrary: d)
  case Nil
  then show ?case by simp
next
  case (Cons kv items)
  obtain k v where kv: "kv = (k, v)" by (cases kv)
  have fresh: "k \<notin> fst ` set d" using Cons.prems kv by auto
  have "distinct (map fst ((d @ [(k, v)]) @ items))" using Cons.prems kv by simp
  from Cons.IH [OF this] show ?case using fresh kv by (simp add: dict_set_fresh)
qed

lemma dict_of_items_distinct: "distinct (map fst items) \<Longrightarrow> dict_of_items items = PDict items"
  using foldl_dict_set_distinct [of "[]" items] by (simp add: dict_of_items_def)

text \<open>
  C6. The check reads the first value of the mapping only: its outcome on a mapping is its
  outcome on the mapping cut down to the first entry. When the \<^verbatim>\<open>type\<close> read from the
  first entry is \<open>t\<close>, the check passes if \<open>t\<close> is \<^verbatim>\<open>None\<close> (no type) or a
  configured primitive type and raises otherwise. A view with neither \<^verbatim>\<open>orig_method\<close>
  nor \<^verbatim>\<open>method\<close> whose \<^verbatim>\<open>queryParameters\<close> have distinct keys is checked by
  \<^verbatim>\<open>__query_params\<close> on the first of them only.
\<close>

theorem primative_parameter_first_only_C6:
  "primative_parameter E (PDict ((k, p) # rest)) = primative_parameter E (PDict [(k, p)]) \<and>
   (dict_get p (PStr ''type'') PNone = Inr t \<longrightarrow>
      primative_parameter E (PDict ((k, p) # rest)) =
        (if t = PNone \<or> t \<in> set (defaults_prim_types (cfg E)) then Inr ()
         else Inl (InvalidRamlFileError
           (quoted ''{0}'' @ '' is not a valid primative parameter type'') [t]))) \<and>
   (\<not> hasattr resource ''orig_method'' \<and> \<not> hasattr resource ''method'' \<and>
    data_get resource (PStr ''queryParameters'') (PDict []) = Inr (PDict ((k, p) # rest)) \<and>
    distinct (map fst ((k, p) # rest)) \<longrightarrow>
      query_params E (resource # args) =
        (primative_parameter E (PDict [(k, p)]), resource # args))"
proof -
  have a: "primative_parameter E (PDict ((k, p) # rest)) = primative_parameter E (PDict [(k, p)])"
    by (simp add: bnd_def)
  have b: "dict_get p (PStr ''type'') PNone = Inr t \<Longrightarrow>
      primative_parameter E (PDict ((k, p) # rest)) =
        (if t = PNone \<or> t \<in> set (defaults_prim_types (cfg E)) then Inr ()
         else Inl (InvalidRamlFileError
           (quoted ''{0}'' @ '' is not a valid primative parameter type'') [t]))"
    by (auto simp add: bnd_def)
  have c: "query_params E (resource # args) =
        (primative_parameter E (PDict [(k, p)]), resource # args)"
    if h: "\<not> hasattr resource ''orig_method''" "\<not> hasattr resource ''method''"
      "data_get resource (PStr ''queryParameters'') (PDict []) = Inr (PDict ((k, p) # rest))"
      "distinct (map fst ((k, p) # rest))"
  proof -
    have "merged_params E ''queryParameters'' resource =
        primative_parameter E (PDict ((k, p) # rest))"
      unfolding merged_params_def using h(1,2,3) dict_of_items_distinct [OF h(4)]
      by (simp add: bnd_def del: primative_parameter.simps)
    then show ?thesis using a by simp
  qed
  show ?thesis using a b c by blast
qed

theorem primative_parameter_first_only_C6_witness:
  "dict_get (PDict [(PStr ''type'', PStr ''string'')]) (PStr ''type'') PNone =
     Inr (PStr ''string'') \<and>
   primative_parameter (sample_env None ''True'') (PDict sample_params) = Inr () \<and>
   primative_parameter (sample_env None ''True'') (PDict (rev sample_params)) =
     Inl (InvalidRamlFileError (quoted ''{0}'' @ '' is not a valid primative parameter type'')
       [PStr ''bogus'']) \<and>
   query_params (sample_env None ''True'') [sample_trait] = (Inr (), [sample_trait])"
  using
    primative_parameter_first_only_C6 [of "sample_env None ''True''" "PStr ''q''"
      "PDict [(PStr ''type'', PStr ''string'')]"
      "[(PStr ''page'', PDict [(PStr ''type'', PStr ''bogus'')])]" "PStr ''string''"
      sample_trait "[]"]
    primative_parameter_first_only_C6 [of "sample_env None ''True''" "PStr ''page''"
      "PDict [(PStr ''type'', PStr ''bogus'')]"
      "[(PStr ''q'', PDict [(PStr ''type'', PStr ''string'')])]" "PStr ''bogus''"
      sample_trait "[]"]
  by (simp add: sample_params_def sample_trait_def data_get_def bnd_def sample_env_def
      sample_config_def)

section \<open>The version rule\<close>

text \<open>
  C7. When \<^verbatim>\<open>baseUri\<close> is a string that holds \<^verbatim>\<open>{version}\<close> and the document
  has no version (\<^verbatim>\<open>raml.get('version')\<close> is \<^verbatim>\<open>None\<close>, or any other value that
  is false as a condition), the rule raises the module's error for every value of the
  production flag: the first message when the flag is true, the second when it is false.
\<close>

theorem version_placeholder_C7:
  assumes "dict_get raml (PStr ''baseUri'') PNone = Inr (PStr (p @ ''{version}'' @ s))"
    and "dict_get raml (PStr ''version'') PNone = Inr v" and "\<not> truthy v"
  shows "version E (raml # prod_flag # args) =
    (Inl (InvalidRamlFileError
       (if truthy prod_flag then ''RAML File does not define an API version.''
        else ''RAML File's baseUri includes {version} parameter but no version is defined.'')
       []),
     raml # prod_flag # args)"
  using assms contains_str_append [of "''{version}''" p s] by (simp add: bnd_def)

theorem version_placeholder_C7_witness:
  "version (sample_env None ''True'')
     [PDict [(PStr ''baseUri'', PStr ''http://api.example.com/{version}'')], PBool True] =
     (Inl (InvalidRamlFileError ''RAML File does not define an API version.'' []),
      [PDict [(PStr ''baseUri'', PStr ''http://api.example.com/{version}'')], PBool True]) \<and>
   version (sample_env None ''True'')
     [PDict [(PStr ''baseUri'', PStr ''http://api.example.com/{version}'')], PBool False] =
     (Inl (InvalidRamlFileError
        ''RAML File's baseUri includes {version} parameter but no version is defined.'' []),
      [PDict [(PStr ''baseUri'', PStr ''http://api.example.com/{version}'')], PBool False])"
  using
    version_placeholder_C7 [of "PDict [(PStr ''baseUri'', PStr ''http://api.example.com/{version}'')]"
      "''http://api.example.com/''" "[]" PNone "sample_env None ''True''" "PBool True" "[]"]
    version_placeholder_C7 [of "PDict [(PStr ''baseUri'', PStr ''http://api.example.com/{version}'')]"
      "''http://api.example.com/''" "[]" PNone "sample_env None ''True''" "PBool False" "[]"]
  by simp

text \<open>
  C10. Let \<^verbatim>\<open>raml.get('version')\<close> be \<open>v\<close>. When \<^verbatim>\<open>raml.get('baseUri')\<close> is
  \<^verbatim>\<open>None\<close>, the rule ends in a \<open>TypeError\<close>, raised by the test
  \<^verbatim>\<open>'{version}' in None\<close>, whenever the production flag is false or a version is there
  (\<open>v\<close> is true as a condition); only with the flag true and no version does it raise the
  module's error, from the first branch. When \<^verbatim>\<open>baseUri\<close> is a string, the rule
  returns or raises the module's error, and nothing else.
\<close>

theorem version_without_base_uri_C10:
  assumes "dict_get raml (PStr ''version'') PNone = Inr v"
  shows
    "(dict_get raml (PStr ''baseUri'') PNone = Inr PNone \<longrightarrow>
        version E (raml # prod_flag # args) =
          (if truthy prod_flag \<and> \<not> truthy v
           then Inl (InvalidRamlFileError ''RAML File does not define an API version.'' [])
           else Inl TypeError,
           raml # prod_flag # args)) \<and>
     (dict_get raml (PStr ''baseUri'') PNone = Inr (PStr b) \<longrightarrow>
        fst (version E (raml # prod_flag # args)) = Inr () \<or>
        (\<exists>msg. fst (version E (raml # prod_flag # args)) = Inl (InvalidRamlFileError msg [])))"
  using assms by (simp add: bnd_def)

theorem version_without_base_uri_C10_witness:
  "version (sample_env None ''True'') [PDict [], PBool False] =
     (Inl TypeError, [PDict [], PBool False]) \<and>
   version (sample_env None ''True'') [PDict [(PStr ''version'', PStr ''v1'')], PBool True] =
     (Inl TypeError, [PDict [(PStr ''version'', PStr ''v1'')], PBool True]) \<and>
   version (sample_env None ''True'') [PDict [], PBool True] =
     (Inl (InvalidRamlFileError ''RAML File does not define an API version.'' []),
      [PDict [], PBool True]) \<and>
   fst (version (sample_env None ''True'')
     [PDict [(PStr ''baseUri'', PStr ''http://api.example.com'')], PBool False]) = Inr ()"
  using
    version_without_base_uri_C10 [of "PDict []" PNone "sample_env None ''True''" "PBool False"
      "[]" "[]"]
    version_without_base_uri_C10 [of "PDict [(PStr ''version'', PStr ''v1'')]" "PStr ''v1''"
      "sample_env None ''True''" "PBool True" "[]" "[]"]
    version_without_base_uri_C10 [of "PDict []" PNone "sample_env None ''True''" "PBool True"
      "[]" "[]"]
    version_without_base_uri_C10 [of "PDict [(PStr ''baseUri'', PStr ''http://api.example.com'')]"
      PNone "sample_env None ''True''" "PBool False" "[]" "''http://api.example.com''"]
  by (simp add: bnd_def)

section \<open>The security settings rule\<close>

lemma need_attrs_find:
  "need_attrs nm required attrs =
     (case find (\<lambda>a. PStr a \<notin> set attrs) required of
        None \<Rightarrow> Inr ()
      | Some a \<Rightarrow> Inl (InvalidRamlFileError
         (''Need to defined '' @ quoted ''{0}'' @ '' in securitySchemas settings '' @
          ''for a valid '' @ nm @ '' scheme'') [PStr a]))"
  unfolding need_attrs_def by (induction required) (simp_all add: bnd_def)

lemma need_attrs_ok:
  "need_attrs nm required attrs = Inr () \<longleftrightarrow> (\<forall>a\<in>set required. PStr a \<in> set attrs)"
  unfolding need_attrs_def by (induction required) (simp_all add: bnd_def)

text \<open>
  C8. A scheme whose settings are missing or empty passes. With a non-empty settings mapping
  and the type \<^verbatim>\<open>OAuth 2.0\<close> the rule passes exactly when the keys include
  \<^verbatim>\<open>authorizationUri\<close>, \<^verbatim>\<open>accessTokenUri\<close>, \<^verbatim>\<open>authorizationGrants\<close> and
  \<^verbatim>\<open>scopes\<close>, and otherwise raises naming the first of them that is missing; with the
  type \<^verbatim>\<open>OAuth 1.0\<close> likewise for \<^verbatim>\<open>requestTokenUri\<close>,
  \<^verbatim>\<open>authorizationUri\<close> and \<^verbatim>\<open>tokenCredentialsUri\<close>; with any other type it
  passes.
\<close>

theorem security_settings_C8:
  "(data_get scheme (PStr ''settings'') PNone = Inr settings \<and> \<not> truthy settings \<longrightarrow>
      security_settings E (scheme # args) = (Inr (), scheme # args)) \<and>
   (data_get scheme (PStr ''settings'') PNone = Inr (PDict kvs) \<and> kvs \<noteq> [] \<and>
    getattr scheme ''type'' = Inr ty \<longrightarrow>
      (ty = PStr ''OAuth 2.0'' \<longrightarrow>
         (fst (security_settings E (scheme # args)) = Inr () \<longleftrightarrow>
            (\<forall>a\<in>set [''authorizationUri'', ''accessTokenUri'', ''authorizationGrants'', ''scopes''].
               PStr a \<in> set (map fst kvs))) \<and>
         security_settings E (scheme # args) =
           (case find (\<lambda>a. PStr a \<notin> set (map fst kvs)) oauth2_attrs of
              None \<Rightarrow> Inr ()
            | Some a \<Rightarrow> Inl (InvalidRamlFileError
                (''Need to defined '' @ quoted ''{0}'' @ '' in securitySchemas settings '' @
                 ''for a valid '' @ ''OAuth 2.0'' @ '' scheme'') [PStr a]),
            scheme # args)) \<and>
      (ty = PStr ''OAuth 1.0'' \<longrightarrow>
         (fst (security_settings E (scheme # args)) = Inr () \<longleftrightarrow>
            (\<forall>a\<in>set [''requestTokenUri'', ''authorizationUri'', ''tokenCredentialsUri''].
               PStr a \<in> set (map fst kvs))) \<and>
         security_settings E (scheme # args) =
           (case find (\<lambda>a. PStr a \<notin> set (map fst kvs)) oauth1_attrs of
              None \<Rightarrow> Inr ()
            | Some a \<Rightarrow> Inl (InvalidRamlFileError
                (''Need to defined '' @ quoted ''{0}'' @ '' in securitySchemas settings '' @
                 ''for a valid '' @ ''OAuth 1.0'' @ '' scheme'') [PStr a]),
            scheme # args)) \<and>
      (ty \<noteq> PStr ''OAuth 2.0'' \<and> ty \<noteq> PStr ''OAuth 1.0'' \<longrightarrow>
         security_settings E (scheme # args) = (Inr (), scheme # args)))"
proof -
  have a: "data_get scheme (PStr ''settings'') PNone = Inr settings \<Longrightarrow> \<not> truthy settings \<Longrightarrow>
      security_settings E (scheme # args) = (Inr (), scheme # args)" for settings
    by (simp add: bnd_def)
  have b: "security_settings E (scheme # args) =
      (bnd (if ty = PStr ''OAuth 2.0'' then need_attrs ''OAuth 2.0'' oauth2_attrs (map fst kvs)
            else Inr ()) (\<lambda>_.
         if ty = PStr ''OAuth 1.0'' then need_attrs ''OAuth 1.0'' oauth1_attrs (map fst kvs)
         else Inr ()), scheme # args)"
    if "data_get scheme (PStr ''settings'') PNone = Inr (PDict kvs)" "kvs \<noteq> []"
      "getattr scheme ''type'' = Inr ty"
    using that by (simp add: bnd_def)
  have c2: "need_attrs ''OAuth 2.0'' oauth2_attrs (map fst kvs) = Inr () \<longleftrightarrow>
      (\<forall>a\<in>set [''authorizationUri'', ''accessTokenUri'', ''authorizationGrants'', ''scopes''].
               PStr a \<in> set (map fst kvs))"
    unfolding need_attrs_ok by (simp add: oauth2_attrs_def)
  have c1: "need_attrs ''OAuth 1.0'' oauth1_attrs (map fst kvs) = Inr () \<longleftrightarrow>
      (\<forall>a\<in>set [''requestTokenUri'', ''authorizationUri'', ''tokenCredentialsUri''].
               PStr a \<in> set (map fst kvs))"
    unfolding need_attrs_ok by (simp add: oauth1_attrs_def)
  show ?thesis
    apply (intro conjI impI)
    subgoal using a by blast
    subgoal using b c2 by (simp add: bnd_unit bnd_Inr)
    subgoal using b by (simp add: bnd_unit bnd_Inr need_attrs_find)
    subgoal using b c1 by (simp add: bnd_def)
    subgoal using b by (simp add: bnd_def need_attrs_find)
    subgoal using b by (simp add: bnd_def)
    done
qed

theorem security_settings_C8_witness:
  "security_settings (sample_env None ''True'') [sample_scheme ''OAuth 2.0'' PNone] =
     (Inr (), [sample_scheme ''OAuth 2.0'' PNone]) \<and>
   security_settings (sample_env None ''True'')
     [sample_scheme ''OAuth 2.0'' (PDict oauth2_without_scopes)] =
     (Inl (InvalidRamlFileError
        (''Need to defined '' @ quoted ''{0}'' @ '' in securitySchemas settings '' @
         ''for a valid '' @ ''OAuth 2.0'' @ '' scheme'') [PStr ''scopes'']),
      [sample_scheme ''OAuth 2.0'' (PDict oauth2_without_scopes)]) \<and>
   security_settings (sample_env None ''True'')
     [sample_scheme ''OAuth 1.0'' (PDict oauth1_complete)] =
     (Inr (), [sample_scheme ''OAuth 1.0'' (PDict oauth1_complete)]) \<and>
   security_settings (sample_env None ''True'')
     [sample_scheme ''x-custom'' (PDict oauth2_without_scopes)] =
     (Inr (), [sample_scheme ''x-custom'' (PDict oauth2_without_scopes)])"
  using
    security_settings_C8 [of "sample_scheme ''OAuth 2.0'' PNone" PNone "sample_env None ''True''"
      "[]" oauth2_without_scopes "PStr ''OAuth 2.0''"]
    security_settings_C8 [of "sample_scheme ''OAuth 2.0'' (PDict oauth2_without_scopes)"
      "PDict oauth2_without_scopes" "sample_env None ''True''" "[]" oauth2_without_scopes
      "PStr ''OAuth 2.0''"]
    security_settings_C8 [of "sample_scheme ''OAuth 1.0'' (PDict oauth1_complete)"
      "PDict oauth1_complete" "sample_env None ''True''" "[]" oauth1_complete
      "PStr ''OAuth 1.0''"]
    security_settings_C8 [of "sample_scheme ''x-custom'' (PDict oauth2_without_scopes)"
      "PDict oauth2_without_scopes" "sample_env None ''True''" "[]" oauth2_without_scopes
      "PStr ''x-custom''"]
  by (simp add: sample_scheme_def oauth2_without_scopes_def oauth1_complete_def oauth2_attrs_def
      oauth1_attrs_def data_get_def bnd_def)

section \<open>The frame of the rules\<close>

lemma reads_only_return [frame]: "reads_only (p_return x)"
  by (simp add: reads_only_def p_return_def)

lemma reads_only_raise [frame]: "reads_only (p_raise e)"
  by (simp add: reads_only_def p_raise_def)

lemma reads_only_read [frame]: "reads_only (p_read f)"
  by (simp add: reads_only_def p_read_def)

lemma reads_only_bind [frame]:
  assumes "reads_only m" and "\<And>x. reads_only (f x)"
  shows "reads_only (p_bind m f)"
proof -
  have "snd (p_bind m f s) = s" for s
  proof (cases "m s")
    case (Pair r s')
    have s': "s' = s" using assms(1) Pair by (auto simp add: reads_only_def dest: spec [of _ s])
    show ?thesis
    proof (cases r)
      case (Inl e)
      then show ?thesis using Pair s' by (simp add: p_bind_def)
    next
      case (Inr x)
      then show ?thesis using Pair s' assms(2) [of x] by (simp add: p_bind_def reads_only_def)
    qed
  qed
  then show ?thesis by (simp add: reads_only_def)
qed

lemma reads_only_if [frame]:
  "(c \<Longrightarrow> reads_only a) \<Longrightarrow> (\<not> c \<Longrightarrow> reads_only b) \<Longrightarrow> reads_only (if c then a else b)"
  by simp

lemma reads_only_pair [frame]:
  "(\<And>a b. reads_only (f a b)) \<Longrightarrow> reads_only (case p of (a, b) \<Rightarrow> f a b)"
  by (cases p) simp

lemma reads_only_first [frame]: "reads_only (p_first xs)"
  by (cases xs) (simp_all add: frame)

lemma reads_only_for_each [frame]:
  "(\<And>x. reads_only (step x)) \<Longrightarrow> reads_only (p_for_each xs step)"
  by (induction xs) (simp_all add: frame)

lemma reads_only_map [frame]: "(\<And>x. reads_only (f x)) \<Longrightarrow> reads_only (p_map f xs)"
  by (induction xs) (simp_all add: frame)

lemma reads_only_get [frame]: "reads_only (o_get d k dflt)"
  unfolding o_get_def by (intro frame) (simp add: frame split: option.split hobj.split)

lemma reads_only_hasattr [frame]: "reads_only (o_hasattr x a)"
  unfolding o_hasattr_def by (intro frame) (simp add: frame split: option.split hobj.split)

lemma reads_only_getattr [frame]: "reads_only (o_getattr x a)"
  unfolding o_getattr_def by (intro frame) (simp add: frame split: option.split hobj.split)

lemma reads_only_keys [frame]: "reads_only (o_keys d)"
  unfolding o_keys_def by (intro frame) (simp add: frame split: option.split hobj.split)

lemma reads_only_values [frame]: "reads_only (o_values d)"
  unfolding o_values_def by (intro frame) (simp add: frame split: option.split hobj.split)

lemma reads_only_items [frame]: "reads_only (o_items d)"
  unfolding o_items_def by (intro frame) (simp add: frame split: option.split hobj.split)

lemma reads_only_iter [frame]: "reads_only (o_iter x)"
  unfolding o_iter_def by (cases x) (simp_all add: frame split: option.split hobj.split)

lemma reads_only_len [frame]: "reads_only (o_len x)"
  unfolding o_len_def by (cases x) (simp_all add: frame split: option.split hobj.split)

lemma reads_only_truthy [frame]: "reads_only (o_truthy x)"
  unfolding o_truthy_def by (cases x) (simp_all add: frame)

lemma reads_only_is_dict [frame]: "reads_only (o_is_dict x)"
  unfolding o_is_dict_def by (simp add: frame)

lemma reads_only_is_list [frame]: "reads_only (o_is_list x)"
  unfolding o_is_list_def by (simp add: frame)

lemma reads_only_in [frame]: "reads_only (o_in x c)"
  unfolding o_in_def by (cases c; cases x) (simp_all add: frame split: option.split hobj.split)

lemma reads_only_lower [frame]: "reads_only (p_lower k)"
  by (cases k) (simp_all add: frame)

lemma reads_only_startswith [frame]: "reads_only (p_startswith s p)"
  by (cases s) (simp_all add: frame)

lemma reads_only_search [frame]: "reads_only (p_search x)"
  by (cases x) (simp_all add: frame)

lemma reads_only_data_get [frame]: "reads_only (data_get_st resource k dflt)"
  unfolding data_get_st_def by (intro frame)

lemma reads_only_scoped_get [frame]: "reads_only (scoped_get_st resource a property)"
  unfolding scoped_get_st_def by (intro frame)

lemma reads_only_method_defined [frame]: "reads_only (method_defined_st resource)"
  unfolding method_defined_st_def by (intro frame)

lemma reads_only_primative_parameter [frame]: "reads_only (primative_parameter_st E parameter)"
  unfolding primative_parameter_st_def by (intro frame)

lemma reads_only_check_media_type [frame]: "reads_only (check_media_type_st E mt)"
  unfolding check_media_type_st_def by (intro frame)

lemma reads_only_body_media_type [frame]: "reads_only (body_media_type_st E b)"
  unfolding body_media_type_st_def by (intro frame)

lemma reads_only_merged_params [frame]: "reads_only (merged_params_st E property resource)"
  unfolding merged_params_st_def by (intro frame)

lemma reads_only_assigned_type [frame]: "reads_only (assigned_type_st resource args assigned)"
  unfolding assigned_type_st_def by (intro frame)

lemma reads_only_need_attrs [frame]: "reads_only (need_attrs_st nm required attrs)"
  unfolding need_attrs_st_def by (intro frame)

lemma base_uri_reads_only: "reads_only (base_uri_st E args)"
  by (induction E args rule: base_uri_st.induct) (auto intro!: frame)

lemma version_reads_only: "reads_only (version_st E args)"
  by (induction E args rule: version_st.induct) (auto intro!: frame)

lemma raml_header_reads_only: "reads_only (raml_header_st E args)"
  by (induction E args rule: raml_header_st.induct)
    (simp_all add: frame Let_def split: option.split prod.split list.split)

lemma api_title_reads_only: "reads_only (api_title_st E args)"
  by (induction E args rule: api_title_st.induct) (auto intro!: frame)

lemma documentation_reads_only: "reads_only (documentation_st E args)"
  by (induction E args rule: documentation_st.induct) (auto intro!: frame)

lemma base_uri_params_reads_only: "reads_only (base_uri_params_st E args)"
  by (induction E args rule: base_uri_params_st.induct) (auto intro!: frame)

lemma schemas_reads_only: "reads_only (schemas_st E args)"
  by (induction E args rule: schemas_st.induct) (simp_all add: frame)

lemma protocols_reads_only: "reads_only (protocols_st E args)"
  by (induction E args rule: protocols_st.induct) (auto intro!: frame)

lemma media_type_reads_only: "reads_only (media_type_st E args)"
  by (induction E args rule: media_type_st.induct) (auto intro!: frame)

lemma security_schemes_reads_only: "reads_only (security_schemes_st E args)"
  by (induction E args rule: security_schemes_st.induct) (auto intro!: frame)

lemma uri_params_reads_only: "reads_only (uri_params_st E args)"
  by (induction E args rule: uri_params_st.induct) (auto intro!: frame)

lemma responses_reads_only: "reads_only (responses_st E args)"
  by (induction E args rule: responses_st.induct) (auto intro!: frame)

lemma query_params_reads_only: "reads_only (query_params_st E args)"
  by (induction E args rule: query_params_st.induct) (simp_all add: frame)

lemma uri_params_resource_reads_only: "reads_only (uri_params_resource_st E args)"
  by (induction E args rule: uri_params_resource_st.induct) (simp_all add: frame)

lemma form_params_reads_only: "reads_only (form_params_st E args)"
  by (induction E args rule: form_params_st.induct) (simp_all add: frame)

lemma headers_reads_only: "reads_only (headers_st E args)"
  by (induction E args rule: headers_st.induct) (simp_all add: frame)

lemma body_reads_only: "reads_only (body_st E args)"
  by (induction E args rule: body_st.induct) (auto intro!: frame)

lemma description_reads_only: "reads_only (description_st E args)"
  by (induction E args rule: description_st.induct) (simp_all add: frame)

lemma base_uri_params_resource_reads_only: "reads_only (base_uri_params_resource_st E args)"
  by (induction E args rule: base_uri_params_resource_st.induct) (simp_all add: frame)

lemma set_type_reads_only: "reads_only (set_type_st E args)"
  by (induction E args rule: set_type_st.induct) (auto intro!: frame)

lemma resource_type_reads_only: "reads_only (resource_type_st E args)"
  by (induction E args rule: resource_type_st.induct) (auto intro!: frame)

lemma secured_by_reads_only: "reads_only (secured_by_st E args)"
  by (induction E args rule: secured_by_st.induct) (auto intro!: frame)

lemma security_settings_reads_only: "reads_only (security_settings_st E args)"
  by (induction E args rule: security_settings_st.induct) (auto intro!: frame)

lemma has_resources_reads_only: "reads_only (has_resources_st E args)"
  by (induction E args rule: has_resources_st.induct) (auto intro!: frame)

lemmas rules_read_only =
  base_uri_reads_only version_reads_only raml_header_reads_only api_title_reads_only
  documentation_reads_only base_uri_params_reads_only schemas_reads_only protocols_reads_only
  media_type_reads_only security_schemes_reads_only uri_params_reads_only
  responses_reads_only query_params_reads_only uri_params_resource_reads_only
  form_params_reads_only headers_reads_only body_reads_only description_reads_only
  base_uri_params_resource_reads_only set_type_reads_only resource_type_reads_only
  secured_by_reads_only security_settings_reads_only has_resources_reads_only

lemma registry_reads_only:
  assumes "(name, rule) \<in> set func_rules_st \<or> (name, rule) \<in> set prop_rules_st"
  shows "reads_only (rule E args)"
  using assms unfolding func_rules_st_def prop_rules_st_def
  by (auto simp add: rules_read_only)

text \<open>A program that writes is not of this kind: the predicate can fail.\<close>

lemma write_changes_store: "s r \<noteq> Some ob \<Longrightarrow> \<not> reads_only (p_write r ob)"
proof
  assume a: "s r \<noteq> Some ob" and b: "reads_only (p_write r ob)"
  from b have "snd (p_write r ob s) = s" by (simp add: reads_only_def)
  then have "(s(r \<mapsto> ob)) r = s r" by (simp add: p_write_def)
  then show False using a by simp
qed

text \<open>
  C9. On the store, every rule of the two registries, in every environment, on every list of
  arguments and every store, whether it returns or raises, leaves the store as it was: the
  document, the root reference, the resource-like object or scheme, and every dict, list and
  object reachable from them. The same holds for the three checks the rules share.
\<close>

theorem rules_leave_arguments_C9:
  assumes "(name, rule) \<in> set func_rules_st \<or> (name, rule) \<in> set prop_rules_st"
  shows "snd (rule E args s) = s \<and>
    snd (primative_parameter_st E parameter s) = s \<and>
    snd (check_media_type_st E mt s) = s \<and>
    snd (body_media_type_st E b s) = s"
  using registry_reads_only [OF assms, of E args] reads_only_primative_parameter [of E parameter]
    reads_only_check_media_type [of E mt] reads_only_body_media_type [of E b]
  by (simp add: reads_only_def)

text \<open>
  On \<open>sample_store\<close> the base URI rule raises on the document at reference 0 and the query
  parameter rule raises on the resource at reference 1, each leaving the store; an assignment
  to an item of the document does change it.
\<close>

theorem rules_leave_arguments_C9_witness:
  "(''_set_base_uri'', base_uri_st) \<in> set func_rules_st \<and>
   base_uri_st (sample_env None ''True'') [VRef 0] sample_store =
     (Inl (HInvalidRamlFileError ''RAML File does not define the baseUri.'' []), sample_store) \<and>
   (''queryParameters'', query_params_st) \<in> set prop_rules_st \<and>
   query_params_st (sample_env None ''True'') [VRef 1] sample_store =
     (Inl (HInvalidRamlFileError
        (quoted ''{0}'' @ '' is not a valid primative parameter type'') [VStr ''bogus'']),
      sample_store) \<and>
   snd (o_setitem (VRef 0) (VStr ''title'') (VStr ''changed'') sample_store) 0 \<noteq> sample_store 0"
proof -
  let ?E = "sample_env None ''True''"
  have m1: "(''_set_base_uri'', base_uri_st) \<in> set func_rules_st"
    by (simp add: func_rules_st_def)
  have m2: "(''queryParameters'', query_params_st) \<in> set prop_rules_st"
    by (simp add: prop_rules_st_def)
  have r1: "fst (base_uri_st ?E [VRef 0] sample_store) =
      Inl (HInvalidRamlFileError ''RAML File does not define the baseUri.'' [])"
    by (simp add: sample_store_def o_get_def o_truthy_def p_bind_def p_read_def p_return_def
        p_raise_def)
  have r2: "fst (query_params_st ?E [VRef 1] sample_store) =
      Inl (HInvalidRamlFileError
        (quoted ''{0}'' @ '' is not a valid primative parameter type'') [VStr ''bogus''])"
    by (simp add: sample_store_def merged_params_st_def data_get_st_def scoped_get_st_def
        method_defined_st_def primative_parameter_st_def new_dict_def in_config_def
        o_get_def o_getattr_def o_hasattr_def o_items_def o_values_def o_truthy_def
        p_bind_def p_read_def p_return_def p_raise_def sample_env_def sample_config_def)
  have w: "snd (o_setitem (VRef 0) (VStr ''title'') (VStr ''changed'') sample_store) 0 \<noteq>
      sample_store 0"
    by (simp add: sample_store_def o_setitem_def p_bind_def p_read_def p_write_def)
  have s1: "snd (base_uri_st ?E [VRef 0] sample_store) = sample_store"
    using rules_leave_arguments_C9 [of "''_set_base_uri''" base_uri_st ?E "[VRef 0]" sample_store]
      m1 by simp
  have s2: "snd (query_params_st ?E [VRef 1] sample_store) = sample_store"
    using rules_leave_arguments_C9 [of "''queryParameters''" query_params_st ?E "[VRef 1]"
        sample_store] m2 by simp
  show ?thesis
    using m1 m2 r1 r2 s1 s2 w by (simp add: prod_eq_iff)
qed

end
